theory Spec2Isabelle
  imports Main
begin

section \<open>Errors\<close>

text \<open>
  Every \<^verbatim>\<open>throw\<close> of the generator is a value. The constructors name the assertion
  sites of ExamGenerator.ts and ExamUtils.ts; \<open>Thrown\<close> wraps an exception raised by a
  collaborator whose code is not part of the sources at hand (choosers, the skin
  compositor, the uuid package, the built-in RegExp constructor).
\<close>

datatype error =
    Uuidv5NamespaceMissing
      \<comment> \<open>verifyOptions: "If uuidv5 filenames are selected, a uuidv5_namespace option must be specified."\<close>
  | Uuidv5NamespaceTooShort
      \<comment> \<open>verifyOptions: "uuidv5 namespace must be at least 16 characters."\<close>
  | Uuidv5NamespaceAsserted
      \<comment> \<open>createStudentUuid: assert(options.uuidv5_namespace)\<close>
  | InconsistentPoints string int string int
      \<comment> \<open>assignExam: "Error: Inconsistent total point values. u0=p0, u=p."\<close>
  | MultipleSectionSkins
      \<comment> \<open>createRandomizedSection: "Generating multiple skins per section is only allowed ..."\<close>
  | MultipleQuestionSkins
      \<comment> \<open>createRandomizedQuestion: "Generating multiple skins per question is only allowed ..."\<close>
  | SectionSpecDrift string
      \<comment> \<open>checkExam: "Multiple sections from different specifications with the ID ... were detected."\<close>
  | QuestionSpecDrift string
      \<comment> \<open>checkExam: "Multiple questions from different specifications with the ID ... were detected."\<close>
  | EmptyUniqname
      \<comment> \<open>loadCSVRoster: "Student uniqname may not be empty. Double check your roster file."\<close>
  | EmptyName
      \<comment> \<open>loadCSVRoster: "Student name may not be empty. Double check your roster file."\<close>
  | TypeError
      \<comment> \<open>the JavaScript runtime: property read on null or undefined\<close>
  | FileNotFound string
      \<comment> \<open>readFileSync on a path that does not exist\<close>
  | Thrown string

text \<open>
  Modelled from the spec: \<^verbatim>\<open>assert\<close> of core/util is imported by ExamGenerator.ts and
  ExamUtils.ts but its code is not among the sources. The spec calls a failed assertion
  fatal ("fail fast", "aborts the entire run"): a false condition raises, a true one
  returns.
\<close>

definition assert :: "bool \<Rightarrow> error \<Rightarrow> error + unit" where
  "assert condition message = (if condition then Inr () else Inl message)"

section \<open>Generator options\<close>

datatype UUID_Strategy = plain | uuidv4 | uuidv5

text \<open>
  \<^verbatim>\<open>Partial<ExamGeneratorOptions>\<close>: every key may be absent (\<open>None\<close>).
\<close>

record PartialExamGeneratorOptions =
  opt_frontend_js_path :: "string option"
  opt_frontend_media_dir :: "string option"
  opt_uuid_strategy :: "UUID_Strategy option"
  opt_uuidv5_namespace :: "string option"
  opt_choose_all :: "bool option"
  opt_allow_duplicates :: "bool option"
  opt_consistent_randomization :: "bool option"

text \<open>
  The options a generator holds after \<^verbatim>\<open>Object.assign({}, DEFAULT_OPTIONS, options)\<close>:
  the four keys of DEFAULT_OPTIONS are always present, the other three stay optional.
\<close>

record ExamGeneratorOptions =
  frontend_js_path :: string
  frontend_media_dir :: string
  uuid_strategy :: UUID_Strategy
  uuidv5_namespace :: "string option"
  choose_all :: "bool option"
  allow_duplicates :: bool
  consistent_randomization :: "bool option"

text \<open>JavaScript truthiness of an optional string and of an optional boolean.\<close>

fun truthy_string :: "string option \<Rightarrow> bool" where
  "truthy_string None = False"
| "truthy_string (Some s) = (s \<noteq> [])"

fun truthy_bool :: "bool option \<Rightarrow> bool" where
  "truthy_bool None = False"
| "truthy_bool (Some b) = b"

text \<open>
  \<^verbatim>\<open>options.uuidv5_namespace.length\<close>, read only behind the guard
  \<^verbatim>\<open>!options.uuidv5_namespace ||\<close>, that is, on a present string.
\<close>

fun namespace_length :: "string option \<Rightarrow> nat" where
  "namespace_length None = 0"
| "namespace_length (Some s) = length s"

definition verifyOptions :: "PartialExamGeneratorOptions \<Rightarrow> error + unit" where
  "verifyOptions options =
     (case assert (opt_uuid_strategy options \<noteq> Some uuidv5
                   \<or> truthy_string (opt_uuidv5_namespace options))
                  Uuidv5NamespaceMissing of
        Inl e \<Rightarrow> Inl e
      | Inr _ \<Rightarrow>
          assert (\<not> truthy_string (opt_uuidv5_namespace options)
                  \<or> 16 \<le> namespace_length (opt_uuidv5_namespace options))
                 Uuidv5NamespaceTooShort)"

definition or_default :: "'a option \<Rightarrow> 'a \<Rightarrow> 'a" where
  "or_default given dflt = (case given of None \<Rightarrow> dflt | Some v \<Rightarrow> v)"

definition assign_options :: "PartialExamGeneratorOptions \<Rightarrow> ExamGeneratorOptions" where
  "assign_options options =
     \<lparr> frontend_js_path = or_default (opt_frontend_js_path options) ''js/frontend.js'',
       frontend_media_dir = or_default (opt_frontend_media_dir options) ''media'',
       uuid_strategy = or_default (opt_uuid_strategy options) plain,
       uuidv5_namespace = opt_uuidv5_namespace options,
       choose_all = opt_choose_all options,
       allow_duplicates = or_default (opt_allow_duplicates options) False,
       consistent_randomization = opt_consistent_randomization options \<rparr>"

section \<open>Students and the exam specification\<close>

record StudentInfo =
  uniqname :: string
  name :: string

text \<open>
  The classes of core/exam_components and core/skins are not among the sources; the
  generator reads the fields below. A skin is either a leaf skin (\<open>'k\<close>) or a chooser
  (\<^verbatim>\<open>component_kind === "chooser"\<close>, \<open>'c\<close>). The back-reference \<open>spec\<close> is compared with
  \<^verbatim>\<open>===\<close>, the identity of the specification object: it is an address.
\<close>

type_synonym spec_ref = nat

datatype ('c, 'k) SkinSpec = LeafSkin 'k | SkinChooser 'c

record ('c, 'k) Question =
  question_id :: string
  question_spec :: spec_ref
  question_skin :: "('c, 'k) SkinSpec"
  question_pointsPossible :: int

record ('qc, 'c, 'k) Section =
  section_id :: string
  section_spec :: spec_ref
  section_skin :: "('c, 'k) SkinSpec"
  section_questions :: "'qc list"

record 'sc Exam =
  exam_id :: string
  exam_sections :: "'sc list"

section \<open>Assigned exams\<close>

text \<open>
  Modelled from the spec: the classes AssignedQuestion, AssignedSection and AssignedExam
  of core/assigned_exams are constructed and read by ExamGenerator.ts but their code is
  not among the sources. The fields are those of the spec's data model, in the order of
  the constructor calls of the generator; \<open>pointsPossible\<close> is the "derived sum" over
  all assigned questions' \<open>pointsPossible\<close>. Points are integers, as in the exams of the
  test directory, so that \<^verbatim>\<open>===\<close> on them is equality.
\<close>

record ('sc, 'c, 'k) AssignedQuestion =
  aq_uuid :: string
  aq_exam :: "'sc Exam"
  aq_student :: StudentInfo
  aq_question :: "('c, 'k) Question"
  aq_skin :: 'k
  aq_sectionIndex :: nat
  aq_partIndex :: nat
  aq_rawSubmission :: string

record ('sc, 'qc, 'c, 'k) AssignedSection =
  as_uuid :: string
  as_section :: "('qc, 'c, 'k) Section"
  as_sectionIndex :: nat
  as_skin :: 'k
  as_assignedQuestions :: "('sc, 'c, 'k) AssignedQuestion list"

record ('sc, 'qc, 'c, 'k) AssignedExam =
  ae_uuid :: string
  ae_exam :: "'sc Exam"
  ae_student :: StudentInfo
  ae_assignedSections :: "('sc, 'qc, 'c, 'k) AssignedSection list"
  ae_pointsPossible :: int
  ae_allow_duplicates :: bool

definition new_AssignedQuestion ::
  "string \<Rightarrow> 'sc Exam \<Rightarrow> StudentInfo \<Rightarrow> ('c, 'k) Question \<Rightarrow> 'k \<Rightarrow> nat \<Rightarrow> nat \<Rightarrow> string
   \<Rightarrow> ('sc, 'c, 'k) AssignedQuestion" where
  "new_AssignedQuestion uuid ex student question skin sectionIndex partIndex rawSubmission =
     \<lparr> aq_uuid = uuid, aq_exam = ex, aq_student = student, aq_question = question,
       aq_skin = skin, aq_sectionIndex = sectionIndex, aq_partIndex = partIndex,
       aq_rawSubmission = rawSubmission \<rparr>"

definition new_AssignedSection ::
  "string \<Rightarrow> ('qc, 'c, 'k) Section \<Rightarrow> nat \<Rightarrow> 'k \<Rightarrow> ('sc, 'c, 'k) AssignedQuestion list
   \<Rightarrow> ('sc, 'qc, 'c, 'k) AssignedSection" where
  "new_AssignedSection uuid section sectionIndex skin assignedQuestions =
     \<lparr> as_uuid = uuid, as_section = section, as_sectionIndex = sectionIndex,
       as_skin = skin, as_assignedQuestions = assignedQuestions \<rparr>"

definition section_pointsPossible :: "('sc, 'qc, 'c, 'k) AssignedSection \<Rightarrow> int" where
  "section_pointsPossible s =
     sum_list (map (\<lambda>q. question_pointsPossible (aq_question q)) (as_assignedQuestions s))"

definition new_AssignedExam ::
  "string \<Rightarrow> 'sc Exam \<Rightarrow> StudentInfo \<Rightarrow> ('sc, 'qc, 'c, 'k) AssignedSection list \<Rightarrow> bool
   \<Rightarrow> ('sc, 'qc, 'c, 'k) AssignedExam" where
  "new_AssignedExam uuid ex student assignedSections allowDuplicates =
     \<lparr> ae_uuid = uuid, ae_exam = ex, ae_student = student,
       ae_assignedSections = assignedSections,
       ae_pointsPossible = sum_list (map section_pointsPossible assignedSections),
       ae_allow_duplicates = allowDuplicates \<rparr>"

section \<open>Collaborators\<close>

text \<open>
  The generator calls into code that is not among the sources: core/randomization
  (the randomizers), core/exam_specification (\<^verbatim>\<open>chooseSections\<close>,
  \<^verbatim>\<open>chooseQuestions\<close>), core/skins (the skin choosers' \<^verbatim>\<open>choose\<close>, here \<open>skin_choose\<close>, and
  \<^verbatim>\<open>createCompositeSkin\<close>) and the uuid package (\<^verbatim>\<open>v4\<close>, \<^verbatim>\<open>v5\<close>). They are
  parameters, collected in one record; every theorem holds for all of them.

  A seeded randomizer is a stateful object: a chooser that draws from it advances it,
  so \<^verbatim>\<open>chooseSections\<close> and \<^verbatim>\<open>chooseQuestions\<close>, which are called several times on
  one randomizer, return the randomizer as they leave it; \<^verbatim>\<open>CHOOSE_ALL\<close> is a
  constant, the same at the start of every call. \<^verbatim>\<open>uuidv4()\<close> draws from the
  process's entropy \<open>'w\<close>. A collaborator that throws returns \<open>Inl\<close> with the
  exception's message; \<open>thrown\<close> makes it the error \<open>Thrown\<close> of the caller.
\<close>

fun thrown :: "string + 'a \<Rightarrow> error + 'a" where
  "thrown (Inl message) = Inl (Thrown message)"
| "thrown (Inr x) = Inr x"

record ('sc, 'qc, 'c, 'k, 'r, 'w) Collaborators =
  CHOOSE_ALL :: 'r
  createSectionChoiceRandomizer :: "string \<Rightarrow> 'sc Exam \<Rightarrow> 'r"
  createQuestionChoiceRandomizer :: "string \<Rightarrow> 'sc Exam \<Rightarrow> ('qc, 'c, 'k) Section \<Rightarrow> 'r"
  createSectionSkinRandomizer :: "string \<Rightarrow> 'sc Exam \<Rightarrow> ('qc, 'c, 'k) Section \<Rightarrow> 'r"
  createQuestionSkinRandomizer :: "string \<Rightarrow> 'sc Exam \<Rightarrow> ('c, 'k) Question \<Rightarrow> 'r"
  chooseSections ::
    "'sc \<Rightarrow> 'sc Exam \<Rightarrow> StudentInfo \<Rightarrow> 'r \<Rightarrow> string + (('qc, 'c, 'k) Section list \<times> 'r)"
  chooseQuestions ::
    "'qc \<Rightarrow> 'sc Exam \<Rightarrow> StudentInfo \<Rightarrow> 'r \<Rightarrow> string + (('c, 'k) Question list \<times> 'r)"
  skin_choose :: "'c \<Rightarrow> 'sc Exam \<Rightarrow> StudentInfo \<Rightarrow> 'r \<Rightarrow> string + 'k list"
  createCompositeSkin :: "'k \<Rightarrow> 'k \<Rightarrow> string + 'k"
  uuid_v4 :: "'w \<Rightarrow> string \<times> 'w"
  uuid_v5 :: "string \<Rightarrow> string \<Rightarrow> string + string"

section \<open>Sequencing\<close>

text \<open>
  An action runs on a state and either throws or returns a value and the state it left.
  \<open>mapM\<close> is \<^verbatim>\<open>Array.prototype.map\<close> with a callback that has effects: left to right,
  stopping at the first throw. \<open>flatMapM\<close> is \<^verbatim>\<open>flatMap\<close>, \<open>flatMapiM\<close> passes the
  index as \<^verbatim>\<open>flatMap((x, i) => ...)\<close> does.
\<close>

type_synonym ('a, 's) action = "'s \<Rightarrow> error + ('a \<times> 's)"

fun bindE :: "error + 'a \<Rightarrow> ('a \<Rightarrow> error + 'b) \<Rightarrow> error + 'b" where
  "bindE (Inl e) f = Inl e"
| "bindE (Inr x) f = f x"

fun mapE :: "('a \<Rightarrow> error + 'b) \<Rightarrow> 'a list \<Rightarrow> error + 'b list" where
  "mapE f [] = Inr []"
| "mapE f (x # xs) = bindE (f x) (\<lambda>y. bindE (mapE f xs) (\<lambda>ys. Inr (y # ys)))"

definition unitM :: "'a \<Rightarrow> ('a, 's) action" where
  "unitM x s = Inr (x, s)"

definition liftE :: "error + 'a \<Rightarrow> ('a, 's) action" where
  "liftE r s = bindE r (\<lambda>x. Inr (x, s))"

definition bindM :: "('a, 's) action \<Rightarrow> ('a \<Rightarrow> ('b, 's) action) \<Rightarrow> ('b, 's) action" where
  "bindM m f s = bindE (m s) (\<lambda>(x, s'). f x s')"

fun mapM :: "('a \<Rightarrow> ('b, 's) action) \<Rightarrow> 'a list \<Rightarrow> ('b list, 's) action" where
  "mapM f [] = unitM []"
| "mapM f (x # xs) = bindM (f x) (\<lambda>y. bindM (mapM f xs) (\<lambda>ys. unitM (y # ys)))"

definition flatMapM :: "('a \<Rightarrow> ('b list, 's) action) \<Rightarrow> 'a list \<Rightarrow> ('b list, 's) action" where
  "flatMapM f xs = bindM (mapM f xs) (\<lambda>yss. unitM (concat yss))"

definition flatMapiM ::
  "('a \<Rightarrow> nat \<Rightarrow> ('b list, 's) action) \<Rightarrow> 'a list \<Rightarrow> ('b list, 's) action" where
  "flatMapiM f xs = flatMapM (\<lambda>(i, x). f x i) (enumerate 0 xs)"

section \<open>ExamUtils.createStudentUuid\<close>

definition createStudentUuid ::
  "('sc, 'qc, 'c, 'k, 'r, 'w) Collaborators \<Rightarrow> ExamGeneratorOptions \<Rightarrow> StudentInfo \<Rightarrow> string
   \<Rightarrow> (string, 'w) action" where
  "createStudentUuid env options student ident =
     (case uuid_strategy options of
        plain \<Rightarrow> unitM (uniqname student @ ''-'' @ ident)
      | uuidv4 \<Rightarrow> (\<lambda>w. Inr (uuid_v4 env w))
      | uuidv5 \<Rightarrow>
          bindM (liftE (assert (truthy_string (uuidv5_namespace options)) Uuidv5NamespaceAsserted))
            (\<lambda>_. liftE (thrown (uuid_v5 env (uniqname student @ ''-'' @ ident)
                                         (or_default (uuidv5_namespace options) [])))))"

section \<open>ExamGenerator: building one student's exam\<close>

definition makeSeed :: "ExamGeneratorOptions \<Rightarrow> StudentInfo \<Rightarrow> string" where
  "makeSeed options student =
     (if truthy_bool (consistent_randomization options) then ''common'' else uniqname student)"

text \<open>
  The default values of the parameters \<^verbatim>\<open>rand\<close> and \<^verbatim>\<open>skinRand\<close> of
  \<^verbatim>\<open>createRandomizedExam\<close>, \<^verbatim>\<open>createRandomizedSection\<close> and
  \<^verbatim>\<open>createRandomizedQuestion\<close>; the generator never passes them explicitly.
\<close>

definition sectionChoiceRand ::
  "('sc, 'qc, 'c, 'k, 'r, 'w) Collaborators \<Rightarrow> ExamGeneratorOptions \<Rightarrow> 'sc Exam \<Rightarrow> StudentInfo \<Rightarrow> 'r" where
  "sectionChoiceRand env options ex student =
     (if truthy_bool (choose_all options) then CHOOSE_ALL env
      else createSectionChoiceRandomizer env (makeSeed options student) ex)"

definition questionChoiceRand ::
  "('sc, 'qc, 'c, 'k, 'r, 'w) Collaborators \<Rightarrow> ExamGeneratorOptions \<Rightarrow> 'sc Exam \<Rightarrow> StudentInfo
   \<Rightarrow> ('qc, 'c, 'k) Section \<Rightarrow> 'r" where
  "questionChoiceRand env options ex student section =
     (if truthy_bool (choose_all options) then CHOOSE_ALL env
      else createQuestionChoiceRandomizer env (makeSeed options student) ex section)"

definition sectionSkinRand ::
  "('sc, 'qc, 'c, 'k, 'r, 'w) Collaborators \<Rightarrow> ExamGeneratorOptions \<Rightarrow> 'sc Exam \<Rightarrow> StudentInfo
   \<Rightarrow> ('qc, 'c, 'k) Section \<Rightarrow> 'r" where
  "sectionSkinRand env options ex student section =
     (if truthy_bool (choose_all options) then CHOOSE_ALL env
      else createSectionSkinRandomizer env (makeSeed options student) ex section)"

definition questionSkinRand ::
  "('sc, 'qc, 'c, 'k, 'r, 'w) Collaborators \<Rightarrow> ExamGeneratorOptions \<Rightarrow> 'sc Exam \<Rightarrow> StudentInfo
   \<Rightarrow> ('c, 'k) Question \<Rightarrow> 'r" where
  "questionSkinRand env options ex student question =
     (if truthy_bool (choose_all options) then CHOOSE_ALL env
      else createQuestionSkinRandomizer env (makeSeed options student) ex question)"

text \<open>
  \<^verbatim>\<open>skin.component_kind === "chooser" ? skin.choose(this.exam, student, rand) : [skin]\<close>
\<close>

definition chooseSkins ::
  "('sc, 'qc, 'c, 'k, 'r, 'w) Collaborators \<Rightarrow> ('c, 'k) SkinSpec \<Rightarrow> 'sc Exam \<Rightarrow> StudentInfo \<Rightarrow> 'r
   \<Rightarrow> error + 'k list" where
  "chooseSkins env skin ex student rand =
     (case skin of
        SkinChooser c \<Rightarrow> thrown (skin_choose env c ex student rand)
      | LeafSkin k \<Rightarrow> Inr [k])"

definition createRandomizedQuestion ::
  "('sc, 'qc, 'c, 'k, 'r, 'w) Collaborators \<Rightarrow> ExamGeneratorOptions \<Rightarrow> 'sc Exam
   \<Rightarrow> ('c, 'k) Question \<Rightarrow> StudentInfo \<Rightarrow> nat \<Rightarrow> nat \<Rightarrow> 'k
   \<Rightarrow> (('sc, 'c, 'k) AssignedQuestion list, 'w) action" where
  "createRandomizedQuestion env options ex question student sectionIndex partIndex sectionSkin =
     bindM (liftE (bindE (chooseSkins env (question_skin question) ex student
                            (questionSkinRand env options ex student question))
                         (mapE (\<lambda>qSkin. thrown (createCompositeSkin env sectionSkin qSkin)))))
       (\<lambda>questionSkins.
          bindM (liftE (assert (allow_duplicates options \<or> length questionSkins = 1)
                               MultipleQuestionSkins))
            (\<lambda>_. mapM (\<lambda>questionSkin.
                    bindM (createStudentUuid env options student
                             (exam_id ex @ ''-q-'' @ question_id question))
                      (\<lambda>uuid. unitM (new_AssignedQuestion uuid ex student question questionSkin
                                       sectionIndex partIndex [])))
                  questionSkins))"

text \<open>
  Inside \<^verbatim>\<open>createRandomizedSection\<close> one question-choice randomizer \<^verbatim>\<open>rand\<close> serves
  every iteration of \<^verbatim>\<open>sectionSkins.map\<close>, so the iterations run on the pair of that
  randomizer and the entropy: \<open>onFst\<close> and \<open>onSnd\<close> run an action on one component,
  \<open>withLocal\<close> provides the randomizer and drops it at the end of the call.
\<close>

definition onFst :: "('a, 'r) action \<Rightarrow> ('a, 'r \<times> 'w) action" where
  "onFst m = (\<lambda>(r, w). bindE (m r) (\<lambda>(x, r'). Inr (x, (r', w))))"

definition onSnd :: "('a, 'w) action \<Rightarrow> ('a, 'r \<times> 'w) action" where
  "onSnd m = (\<lambda>(r, w). bindE (m w) (\<lambda>(x, w'). Inr (x, (r, w'))))"

definition withLocal :: "'r \<Rightarrow> ('a, 'r \<times> 'w) action \<Rightarrow> ('a, 'w) action" where
  "withLocal r m w = bindE (m (r, w)) (\<lambda>(x, (r', w')). Inr (x, w'))"

definition createRandomizedSection ::
  "('sc, 'qc, 'c, 'k, 'r, 'w) Collaborators \<Rightarrow> ExamGeneratorOptions \<Rightarrow> 'sc Exam
   \<Rightarrow> ('qc, 'c, 'k) Section \<Rightarrow> StudentInfo \<Rightarrow> nat
   \<Rightarrow> (('sc, 'qc, 'c, 'k) AssignedSection list, 'w) action" where
  "createRandomizedSection env options ex section student sectionIndex =
     bindM (liftE (chooseSkins env (section_skin section) ex student
                     (sectionSkinRand env options ex student section)))
       (\<lambda>sectionSkins.
          bindM (liftE (assert (allow_duplicates options \<or> length sectionSkins = 1)
                               MultipleSectionSkins))
            (\<lambda>_. withLocal (questionChoiceRand env options ex student section)
                   (mapM (\<lambda>sectionSkin.
                      bindM (onSnd (createStudentUuid env options student
                                      (exam_id ex @ ''-s-'' @ section_id section)))
                        (\<lambda>uuid.
                           bindM (onFst (flatMapM (\<lambda>chooser r. thrown (chooseQuestions env chooser ex student r))
                                           (section_questions section)))
                             (\<lambda>questions.
                                bindM (onSnd (flatMapiM (\<lambda>q partIndex.
                                                createRandomizedQuestion env options ex q student
                                                  sectionIndex partIndex sectionSkin)
                                              questions))
                                  (\<lambda>assignedQuestions.
                                     unitM (new_AssignedSection uuid section sectionIndex
                                              sectionSkin assignedQuestions)))))
                    sectionSkins)))"

text \<open>
  The expression \<^verbatim>\<open>new AssignedExam(...)\<close> of \<^verbatim>\<open>createRandomizedExam\<close>: the uuid
  first, then every section chooser on the one randomizer \<^verbatim>\<open>rand\<close>, then every chosen
  section with its index.
\<close>

definition buildAssignedExam ::
  "('sc, 'qc, 'c, 'k, 'r, 'w) Collaborators \<Rightarrow> ExamGeneratorOptions \<Rightarrow> 'sc Exam \<Rightarrow> StudentInfo
   \<Rightarrow> (('sc, 'qc, 'c, 'k) AssignedExam, 'w) action" where
  "buildAssignedExam env options ex student =
     bindM (createStudentUuid env options student (exam_id ex))
       (\<lambda>uuid.
          bindM (withLocal (sectionChoiceRand env options ex student)
                   (onFst (flatMapM (\<lambda>chooser r. thrown (chooseSections env chooser ex student r))
                             (exam_sections ex))))
            (\<lambda>sections.
               bindM (flatMapiM (\<lambda>s sectionIndex.
                                   createRandomizedSection env options ex s student sectionIndex)
                                sections)
                 (\<lambda>assignedSections.
                    unitM (new_AssignedExam uuid ex student assignedSections
                             (allow_duplicates options)))))"

section \<open>ExamGenerator: the generator and its consistency check\<close>

record ('qc, 'c, 'k) SectionStats =
  stats_section :: "('qc, 'c, 'k) Section"
  section_n :: nat

record ('c, 'k) QuestionStats =
  stats_question :: "('c, 'k) Question"
  question_n :: nat

text \<open>
  The object maps of the class are created by \<^verbatim>\<open>{}\<close>. Such an object is kept as its
  own properties, a map from the key to the value. Reading a key that is not an own
  property finds what the object inherits from \<^verbatim>\<open>Object.prototype\<close>: a built-in
  function under each of the names below (under \<^verbatim>\<open>__proto__\<close> the prototype itself),
  all of them truthy, and \<^verbatim>\<open>undefined\<close> under every other name. Assigning to the key
  \<^verbatim>\<open>__proto__\<close> replaces the prototype of the object and adds no property;
  assigning to any other key adds or replaces an own property. The class assigns under
  \<^verbatim>\<open>__proto__\<close> only in tables that it never reads by key.
\<close>

definition Object_prototype_properties :: "string list" where
  "Object_prototype_properties =
     [''constructor'', ''__defineGetter__'', ''__defineSetter__'', ''hasOwnProperty'',
      ''__lookupGetter__'', ''__lookupSetter__'', ''isPrototypeOf'', ''propertyIsEnumerable'',
      ''toString'', ''valueOf'', ''__proto__'', ''toLocaleString'']"

definition inherited :: "string \<Rightarrow> bool" where
  "inherited p \<longleftrightarrow> p \<in> set Object_prototype_properties"

definition assign_property :: "string \<Rightarrow> 'v \<Rightarrow> (string \<rightharpoonup> 'v) \<Rightarrow> (string \<rightharpoonup> 'v)" where
  "assign_property p v obj = (if p = ''__proto__'' then obj else obj(p \<mapsto> v))"

record ('sc, 'qc, 'c, 'k) ExamGenerator =
  exam :: "'sc Exam"
  assignedExams :: "('sc, 'qc, 'c, 'k) AssignedExam list"
  assignedExamsByUniqname :: "string \<rightharpoonup> ('sc, 'qc, 'c, 'k) AssignedExam"
  sectionsMap :: "string \<rightharpoonup> ('qc, 'c, 'k) Section"
  questionsMap :: "string \<rightharpoonup> ('c, 'k) Question"
  sectionStatsMap :: "string \<rightharpoonup> ('qc, 'c, 'k) SectionStats"
  questionStatsMap :: "string \<rightharpoonup> ('c, 'k) QuestionStats"
  options :: ExamGeneratorOptions

definition new_ExamGenerator ::
  "'sc Exam \<Rightarrow> PartialExamGeneratorOptions \<Rightarrow> error + ('sc, 'qc, 'c, 'k) ExamGenerator" where
  "new_ExamGenerator ex opts =
     bindE (verifyOptions opts)
       (\<lambda>_. Inr \<lparr> exam = ex, assignedExams = [], assignedExamsByUniqname = Map.empty,
                  sectionsMap = Map.empty, questionsMap = Map.empty,
                  sectionStatsMap = Map.empty, questionStatsMap = Map.empty,
                  options = assign_options opts \<rparr>)"

text \<open>\<^verbatim>\<open>forEach\<close> with a callback that updates the generator and may throw.\<close>

fun forEachE :: "('a \<Rightarrow> 's \<Rightarrow> error + 's) \<Rightarrow> 'a list \<Rightarrow> 's \<Rightarrow> error + 's" where
  "forEachE f [] s = Inr s"
| "forEachE f (x # xs) s = bindE (f x s) (forEachE f xs)"

definition trackSection ::
  "('qc, 'c, 'k) Section \<Rightarrow> ('sc, 'qc, 'c, 'k) ExamGenerator \<Rightarrow> ('sc, 'qc, 'c, 'k) ExamGenerator" where
  "trackSection s g = g\<lparr>sectionsMap := assign_property (section_id s) s (sectionsMap g)\<rparr>"

definition trackQuestion ::
  "('c, 'k) Question \<Rightarrow> ('sc, 'qc, 'c, 'k) ExamGenerator \<Rightarrow> ('sc, 'qc, 'c, 'k) ExamGenerator" where
  "trackQuestion q g = g\<lparr>questionsMap := assign_property (question_id q) q (questionsMap g)\<rparr>"

text \<open>
  The callback of the second \<^verbatim>\<open>sections.forEach\<close>, by what the lookup
  \<^verbatim>\<open>this.sectionStatsMap[section.section_id]\<close> finds.

  \<^item> An entry of the table: it is an object, so it is truthy; \<^verbatim>\<open>++n\<close> yields at
    least 2, which is truthy, so the assertion behind \<^verbatim>\<open>&&\<close> is evaluated.
  \<^item> No entry, and the id is a name inherited from \<^verbatim>\<open>Object.prototype\<close>: the
    built-in found there is truthy, so the first branch is taken; it has no numeric
    \<^verbatim>\<open>n\<close>, so \<^verbatim>\<open>++n\<close> yields \<^verbatim>\<open>NaN\<close>, which is falsy, and
    \<^verbatim>\<open>&&\<close> leaves the assertion out. The table gets no entry. (The \<^verbatim>\<open>NaN\<close> is
    stored in a property \<^verbatim>\<open>n\<close> of the built-in, outside the generator.)
  \<^item> No entry under any other id: \<^verbatim>\<open>undefined\<close> is falsy, and the entry is made.
    The id is not \<^verbatim>\<open>__proto__\<close> here, so the assignment adds an own property.

  The callback for questions is the same on its own table.
\<close>

definition countSection ::
  "('qc, 'c, 'k) Section \<Rightarrow> ('sc, 'qc, 'c, 'k) ExamGenerator
   \<Rightarrow> error + ('sc, 'qc, 'c, 'k) ExamGenerator" where
  "countSection section g =
     (case sectionStatsMap g (section_id section) of
        Some entry \<Rightarrow>
          (let g' = g\<lparr>sectionStatsMap := (sectionStatsMap g)
                      (section_id section \<mapsto> entry\<lparr>section_n := section_n entry + 1\<rparr>)\<rparr>
           in bindE (assert (section_spec section = section_spec (stats_section entry))
                            (SectionSpecDrift (section_id section)))
                (\<lambda>_. Inr g'))
      | None \<Rightarrow>
          if inherited (section_id section) then Inr g
          else Inr (g\<lparr>sectionStatsMap := (sectionStatsMap g)
                      (section_id section \<mapsto> \<lparr>stats_section = section, section_n = 1\<rparr>)\<rparr>))"

definition countQuestion ::
  "('c, 'k) Question \<Rightarrow> ('sc, 'qc, 'c, 'k) ExamGenerator
   \<Rightarrow> error + ('sc, 'qc, 'c, 'k) ExamGenerator" where
  "countQuestion question g =
     (case questionStatsMap g (question_id question) of
        Some entry \<Rightarrow>
          (let g' = g\<lparr>questionStatsMap := (questionStatsMap g)
                      (question_id question \<mapsto> entry\<lparr>question_n := question_n entry + 1\<rparr>)\<rparr>
           in bindE (assert (question_spec question = question_spec (stats_question entry))
                            (QuestionSpecDrift (question_id question)))
                (\<lambda>_. Inr g'))
      | None \<Rightarrow>
          if inherited (question_id question) then Inr g
          else Inr (g\<lparr>questionStatsMap := (questionStatsMap g)
                      (question_id question \<mapsto> \<lparr>stats_question = question, question_n = 1\<rparr>)\<rparr>))"

definition assigned_sections_of ::
  "('sc, 'qc, 'c, 'k) AssignedExam \<Rightarrow> ('qc, 'c, 'k) Section list" where
  "assigned_sections_of ae = map as_section (ae_assignedSections ae)"

definition assigned_questions_of ::
  "('sc, 'qc, 'c, 'k) AssignedExam \<Rightarrow> ('c, 'k) Question list" where
  "assigned_questions_of ae =
     concat (map (\<lambda>s. map aq_question (as_assignedQuestions s)) (ae_assignedSections ae))"

definition checkExam ::
  "('sc, 'qc, 'c, 'k) ExamGenerator \<Rightarrow> ('sc, 'qc, 'c, 'k) AssignedExam
   \<Rightarrow> error + ('sc, 'qc, 'c, 'k) ExamGenerator" where
  "checkExam g ae =
     (let sections = assigned_sections_of ae;
          g1 = fold trackSection sections g
      in bindE (forEachE countSection sections g1)
           (\<lambda>g2. let questions = assigned_questions_of ae;
                      g3 = fold trackQuestion questions g2
                  in forEachE countQuestion questions g3))"

text \<open>
  The public methods run on the generator and the entropy together. What they print with
  \<^verbatim>\<open>console.log\<close> is left out.
\<close>

definition createRandomizedExam ::
  "('sc, 'qc, 'c, 'k, 'r, 'w) Collaborators \<Rightarrow> StudentInfo
   \<Rightarrow> (('sc, 'qc, 'c, 'k) AssignedExam, ('sc, 'qc, 'c, 'k) ExamGenerator \<times> 'w) action" where
  "createRandomizedExam env student =
     (\<lambda>(g, w). bindE (buildAssignedExam env (options g) (exam g) student w)
                  (\<lambda>(ae, w'). bindE (checkExam g ae) (\<lambda>g'. Inr (ae, (g', w')))))"

definition assignExam ::
  "('sc, 'qc, 'c, 'k, 'r, 'w) Collaborators \<Rightarrow> StudentInfo
   \<Rightarrow> (('sc, 'qc, 'c, 'k) AssignedExam, ('sc, 'qc, 'c, 'k) ExamGenerator \<times> 'w) action" where
  "assignExam env student =
     bindM (createRandomizedExam env student)
       (\<lambda>ae (g, w).
          let g' = g\<lparr> assignedExams := assignedExams g @ [ae],
                      assignedExamsByUniqname :=
                        assign_property (uniqname student) ae (assignedExamsByUniqname g) \<rparr>
          in (case assignedExams g' of
                [] \<Rightarrow> Inl TypeError
              | first # _ \<Rightarrow>
                  bindE (assert (ae_pointsPossible ae = ae_pointsPossible first)
                           (InconsistentPoints (uniqname (ae_student first)) (ae_pointsPossible first)
                              (uniqname (ae_student ae)) (ae_pointsPossible ae)))
                    (\<lambda>_. Inr (ae, (g', w)))))"

definition assignExams ::
  "('sc, 'qc, 'c, 'k, 'r, 'w) Collaborators \<Rightarrow> StudentInfo list
   \<Rightarrow> (unit, ('sc, 'qc, 'c, 'k) ExamGenerator \<times> 'w) action" where
  "assignExams env students = bindM (mapM (assignExam env) students) (\<lambda>_. unitM ())"

section \<open>ExamUtils: files\<close>

text \<open>
  The file system is a map from a path to the content of the file, of a type \<open>'f\<close>.
  The readers and writers of content are packages and built-ins, hence parameters:
  \<^verbatim>\<open>Papa.parse(text, {header: true, skipEmptyLines: true}).data\<close>, the text that
  \<^verbatim>\<open>JSON.stringify\<close> writes for a document, the document that \<^verbatim>\<open>JSON.parse\<close> reads
  from a text (before it applies the reviver), and \<^verbatim>\<open>new RegExp(pattern, flags)\<close>,
  which returns the source and the flags of the object it creates, or throws
  (\<open>Inl\<close> with the message, as for the generator's collaborators).
\<close>

definition readFileSync :: "(string \<rightharpoonup> 'f) \<Rightarrow> string \<Rightarrow> error + 'f" where
  "readFileSync fs filename =
     (case fs filename of None \<Rightarrow> Inl (FileNotFound filename) | Some content \<Rightarrow> Inr content)"

subsection \<open>loadCSVRoster\<close>

text \<open>
  A row parsed with \<^verbatim>\<open>header: true\<close> is an object keyed by the header's fields; a field
  that the header or the row lacks is \<^verbatim>\<open>undefined\<close> (\<open>None\<close>).
\<close>

record RosterRow =
  row_uniqname :: "string option"
  row_name :: "string option"

definition checkRosterRow :: "RosterRow \<Rightarrow> unit \<Rightarrow> error + unit" where
  "checkRosterRow s _ =
     bindE (assert (row_uniqname s \<noteq> Some []) EmptyUniqname)
       (\<lambda>_. assert (row_name s \<noteq> Some []) EmptyName)"

definition loadCSVRoster ::
  "('f \<Rightarrow> RosterRow list) \<Rightarrow> (string \<rightharpoonup> 'f) \<Rightarrow> string \<Rightarrow> error + RosterRow list" where
  "loadCSVRoster papa_parse fs filename =
     bindE (readFileSync fs filename)
       (\<lambda>text. let students = papa_parse text
               in bindE (forEachE checkRosterRow students ()) (\<lambda>_. Inr students))"

subsection \<open>Values and documents\<close>

text \<open>
  The values a specification object is made of. \<open>JSNonFinite\<close> stands for NaN and the
  infinities, \<open>JSFunction\<close> for a function (by identity), \<open>JSRegExp\<close> carries the
  \<^verbatim>\<open>source\<close> and \<^verbatim>\<open>flags\<close> of a RegExp object. An object lists its own enumerable
  properties in enumeration order.
\<close>

datatype jsvalue =
    JSUndefined
  | JSNull
  | JSBoolean bool
  | JSNumber int
  | JSNonFinite
  | JSString string
  | JSFunction nat
  | JSRegExp string string
  | JSArray "jsvalue list"
  | JSObject "(string \<times> jsvalue) list"

datatype json =
    JNull
  | JBoolean bool
  | JNumber int
  | JString string
  | JArray "json list"
  | JObject "(string \<times> json) list"

datatype property_key = PropertyName string | ArrayIndex nat

record 'f Builtins =
  json_text :: "json \<Rightarrow> 'f"
  json_read :: "'f \<Rightarrow> string + json"
  new_RegExp :: "jsvalue \<Rightarrow> jsvalue \<Rightarrow> string + (string \<times> string)"

fun typeof :: "jsvalue \<Rightarrow> string" where
  "typeof JSUndefined = ''undefined''"
| "typeof JSNull = ''object''"
| "typeof (JSBoolean _) = ''boolean''"
| "typeof (JSNumber _) = ''number''"
| "typeof JSNonFinite = ''number''"
| "typeof (JSString _) = ''string''"
| "typeof (JSFunction _) = ''function''"
| "typeof (JSRegExp _ _) = ''object''"
| "typeof (JSArray _) = ''object''"
| "typeof (JSObject _) = ''object''"

text \<open>
  \<^verbatim>\<open>value[name]\<close> for the three names the reviver reads
  (\<^verbatim>\<open>"examma_ray_serialized_regex"\<close>, \<^verbatim>\<open>"source"\<close>, \<^verbatim>\<open>"flags"\<close>): a TypeError on
  \<^verbatim>\<open>null\<close> and \<^verbatim>\<open>undefined\<close>, the own property of an object, the accessor of a
  RegExp, and \<^verbatim>\<open>undefined\<close> where there is no such property.
\<close>

fun get_property :: "jsvalue \<Rightarrow> string \<Rightarrow> error + jsvalue" where
  "get_property JSUndefined _ = Inl TypeError"
| "get_property JSNull _ = Inl TypeError"
| "get_property (JSObject props) p =
     (case map_of props p of None \<Rightarrow> Inr JSUndefined | Some v \<Rightarrow> Inr v)"
| "get_property (JSRegExp source flags) p =
     (if p = ''source'' then Inr (JSString source)
      else if p = ''flags'' then Inr (JSString flags)
      else Inr JSUndefined)"
| "get_property _ _ = Inr JSUndefined"

subsection \<open>saveExamSpecification\<close>

text \<open>The replacer function passed to \<^verbatim>\<open>JSON.stringify\<close>.\<close>

definition replacer :: "property_key \<Rightarrow> jsvalue \<Rightarrow> jsvalue" where
  "replacer key v =
     (case v of
        JSRegExp source flags \<Rightarrow>
          JSObject [(''examma_ray_serialized_regex'',
                     JSObject [(''source'', JSString source), (''flags'', JSString flags)])]
      | _ \<Rightarrow> v)"




subsection \<open>loadExamSpecification\<close>

definition reviver :: "'f Builtins \<Rightarrow> property_key \<Rightarrow> jsvalue \<Rightarrow> error + jsvalue" where
  "reviver js key v =
     (if typeof v = ''object'' then
        bindE (get_property v ''examma_ray_serialized_regex'')
          (\<lambda>tagged.
             if typeof tagged = ''object'' then
               bindE (get_property tagged ''source'')
                 (\<lambda>source. bindE (get_property tagged ''flags'')
                    (\<lambda>flags. bindE (thrown (new_RegExp js source flags))
                       (\<lambda>(s, f). Inr (JSRegExp s f))))
             else Inr v)
      else Inr v)"

text \<open>
  \<^verbatim>\<open>JSON.parse(text, reviver)\<close> after the text is read (InternalizeJSONProperty): the
  elements of an array and the members of an object first, in order, then the value
  itself. This reviver never returns \<^verbatim>\<open>undefined\<close>, so no property is deleted.
\<close>

fun internalizeJSONProperty :: "'f Builtins \<Rightarrow> property_key \<Rightarrow> json \<Rightarrow> error + jsvalue"
  and internalizeElements :: "'f Builtins \<Rightarrow> nat \<Rightarrow> json list \<Rightarrow> error + jsvalue list"
  and internalizeMembers ::
    "'f Builtins \<Rightarrow> (string \<times> json) list \<Rightarrow> error + (string \<times> jsvalue) list" where
  "internalizeJSONProperty js key JNull = reviver js key JSNull"
| "internalizeJSONProperty js key (JBoolean b) = reviver js key (JSBoolean b)"
| "internalizeJSONProperty js key (JNumber n) = reviver js key (JSNumber n)"
| "internalizeJSONProperty js key (JString s) = reviver js key (JSString s)"
| "internalizeJSONProperty js key (JArray xs) =
     bindE (internalizeElements js 0 xs) (\<lambda>vs. reviver js key (JSArray vs))"
| "internalizeJSONProperty js key (JObject members) =
     bindE (internalizeMembers js members) (\<lambda>props. reviver js key (JSObject props))"
| "internalizeElements js i [] = Inr []"
| "internalizeElements js i (x # xs) =
     bindE (internalizeJSONProperty js (ArrayIndex i) x)
       (\<lambda>v. bindE (internalizeElements js (Suc i) xs) (\<lambda>vs. Inr (v # vs)))"
| "internalizeMembers js [] = Inr []"
| "internalizeMembers js ((k, x) # members) =
     bindE (internalizeJSONProperty js (PropertyName k) x)
       (\<lambda>v. bindE (internalizeMembers js members) (\<lambda>props. Inr ((k, v) # props)))"


section \<open>A concrete instance\<close>

text \<open>
  Collaborators to run the generator on: a leaf skin is its name, a skin chooser the list
  of skins it chooses from, a section or question chooser the pool of its variants. The
  randomizer \<open>None\<close> is \<^verbatim>\<open>CHOOSE_ALL\<close> and selects the whole pool; a seeded randomizer
  is a number, starts as the length of its seed, selects the variant at that position
  (modulo the size of the pool) and moves on by one.
\<close>

type_synonym demo_question = "(string list, string) Question"
type_synonym demo_section = "(demo_question list, string list, string) Section"
type_synonym demo_exam = "demo_section list Exam"
type_synonym demo_collaborators =
  "(demo_section list, demo_question list, string list, string, nat option, nat) Collaborators"
type_synonym demo_generator =
  "(demo_section list, demo_question list, string list, string) ExamGenerator"

definition demo_pick :: "'a list \<Rightarrow> nat option \<Rightarrow> string + ('a list \<times> nat option)" where
  "demo_pick pool r =
     (case r of
        None \<Rightarrow> Inr (pool, None)
      | Some n \<Rightarrow> (case pool of
                     [] \<Rightarrow> Inl ''nothing to choose from''
                   | _ # _ \<Rightarrow> Inr ([pool ! (n mod length pool)], Some (Suc n))))"

definition demo_env :: demo_collaborators where
  "demo_env =
     \<lparr> CHOOSE_ALL = None,
       createSectionChoiceRandomizer = (\<lambda>seed ex. Some (length seed)),
       createQuestionChoiceRandomizer = (\<lambda>seed ex section. Some (length seed)),
       createSectionSkinRandomizer = (\<lambda>seed ex section. Some (length seed)),
       createQuestionSkinRandomizer = (\<lambda>seed ex question. Some (length seed)),
       chooseSections = (\<lambda>pool ex student r. demo_pick pool r),
       chooseQuestions = (\<lambda>pool ex student r. demo_pick pool r),
       skin_choose = (\<lambda>pool ex student r. map_sum id fst (demo_pick pool r)),
       createCompositeSkin = (\<lambda>sectionSkin questionSkin. Inr (sectionSkin @ ''+'' @ questionSkin)),
       uuid_v4 = (\<lambda>w. (replicate (Suc w) CHR ''x'', Suc w)),
       uuid_v5 = (\<lambda>n namespace. Inr (namespace @ '':'' @ n)) \<rparr>"

definition demo_q1 :: demo_question where
  "demo_q1 = \<lparr> question_id = ''q1'', question_spec = 1,
               question_skin = LeafSkin ''default'', question_pointsPossible = 3 \<rparr>"

definition demo_q2 :: demo_question where
  "demo_q2 = \<lparr> question_id = ''q2'', question_spec = 2,
               question_skin = LeafSkin ''default'', question_pointsPossible = 5 \<rparr>"

definition demo_q3 :: demo_question where
  "demo_q3 = \<lparr> question_id = ''q3'', question_spec = 3,
               question_skin = SkinChooser [''red'', ''blue''], question_pointsPossible = 4 \<rparr>"

definition demo_sectionA :: demo_section where
  "demo_sectionA = \<lparr> section_id = ''sectionA'', section_spec = 10,
                     section_skin = LeafSkin ''default'',
                     section_questions = [[demo_q1], [demo_q2]] \<rparr>"

definition demo_sectionB :: demo_section where
  "demo_sectionB = \<lparr> section_id = ''sectionB'', section_spec = 11,
                     section_skin = SkinChooser [''green'', ''yellow''],
                     section_questions = [[demo_q1], [demo_q3]] \<rparr>"

text \<open>A second specification object under the id of \<open>demo_sectionA\<close>.\<close>

definition demo_sectionA' :: demo_section where
  "demo_sectionA' = demo_sectionA \<lparr> section_spec := 12 \<rparr>"

text \<open>
  The specification's end-to-end scenario: one fixed section, two fixed questions worth
  3 and 5 points.
\<close>

definition demo_exam_fixed :: demo_exam where
  "demo_exam_fixed = \<lparr> exam_id = ''exam1'', exam_sections = [[demo_sectionA]] \<rparr>"

text \<open>One section slot with two variants, worth 8 and 7 points.\<close>

definition demo_exam_unequal :: demo_exam where
  "demo_exam_unequal = \<lparr> exam_id = ''exam2'', exam_sections = [[demo_sectionA, demo_sectionB]] \<rparr>"

text \<open>One section slot with two variants that share an id but not the specification.\<close>

definition demo_exam_drift :: demo_exam where
  "demo_exam_drift = \<lparr> exam_id = ''exam3'', exam_sections = [[demo_sectionA, demo_sectionA']] \<rparr>"

text \<open>
  The same with ids that every object inherits: one section slot with two variants under
  the id \<^verbatim>\<open>constructor\<close>, from two specifications, each with one question slot
  with two variants under the id \<^verbatim>\<open>toString\<close>, from two specifications. Every
  variant is worth 8 points.
\<close>

definition demo_qT :: demo_question where
  "demo_qT = \<lparr> question_id = ''toString'', question_spec = 20,
               question_skin = LeafSkin ''default'', question_pointsPossible = 5 \<rparr>"

definition demo_qT' :: demo_question where
  "demo_qT' = demo_qT \<lparr> question_spec := 21 \<rparr>"

definition demo_sectionC :: demo_section where
  "demo_sectionC = \<lparr> section_id = ''constructor'', section_spec = 30,
                     section_skin = LeafSkin ''default'',
                     section_questions = [[demo_q1], [demo_qT, demo_qT']] \<rparr>"

definition demo_sectionC' :: demo_section where
  "demo_sectionC' = demo_sectionC \<lparr> section_spec := 31 \<rparr>"

definition demo_exam_inherited :: demo_exam where
  "demo_exam_inherited =
     \<lparr> exam_id = ''exam5'', exam_sections = [[demo_sectionC, demo_sectionC']] \<rparr>"

definition demo_al :: StudentInfo where
  "demo_al = \<lparr> uniqname = ''al'', name = ''Al'' \<rparr>"

definition demo_bob :: StudentInfo where
  "demo_bob = \<lparr> uniqname = ''bob'', name = ''Bob'' \<rparr>"

definition no_options :: PartialExamGeneratorOptions where
  "no_options =
     \<lparr> opt_frontend_js_path = None, opt_frontend_media_dir = None, opt_uuid_strategy = None,
       opt_uuidv5_namespace = None, opt_choose_all = None, opt_allow_duplicates = None,
       opt_consistent_randomization = None \<rparr>"


definition demo_generator :: "demo_exam \<Rightarrow> demo_generator" where
  "demo_generator ex =
     \<lparr> exam = ex, assignedExams = [], assignedExamsByUniqname = Map.empty,
       sectionsMap = Map.empty, questionsMap = Map.empty,
       sectionStatsMap = Map.empty, questionStatsMap = Map.empty,
       options = assign_options no_options \<rparr>"

section \<open>Notions used in the statements\<close>

text \<open>The assigned questions of an exam, section by section.\<close>

definition assigned_question_nodes ::
  "('sc, 'qc, 'c, 'k) AssignedExam \<Rightarrow> ('sc, 'c, 'k) AssignedQuestion list" where
  "assigned_question_nodes ae = concat (map as_assignedQuestions (ae_assignedSections ae))"

text \<open>
  The specification object that the stats tables hold as the representative of an id.
\<close>

definition section_representative ::
  "('sc, 'qc, 'c, 'k) ExamGenerator \<Rightarrow> string \<rightharpoonup> spec_ref" where
  "section_representative g ident =
     map_option (\<lambda>entry. section_spec (stats_section entry)) (sectionStatsMap g ident)"

definition question_representative ::
  "('sc, 'qc, 'c, 'k) ExamGenerator \<Rightarrow> string \<rightharpoonup> spec_ref" where
  "question_representative g ident =
     map_option (\<lambda>entry. question_spec (stats_question entry)) (questionStatsMap g ident)"

text \<open>
  The state the consistency check maintains: every section and question of every exam
  assigned so far, unless its id is an inherited name, has the specification of the
  representative of its id. A fresh generator has no exams.
\<close>

definition tables_represent :: "('sc, 'qc, 'c, 'k) ExamGenerator \<Rightarrow> bool" where
  "tables_represent g \<longleftrightarrow>
     (\<forall>ae\<in>set (assignedExams g).
        (\<forall>s\<in>set (assigned_sections_of ae).
           \<not> inherited (section_id s) \<longrightarrow>
           section_representative g (section_id s) = Some (section_spec s)) \<and>
        (\<forall>q\<in>set (assigned_questions_of ae).
           \<not> inherited (question_id q) \<longrightarrow>
           question_representative g (question_id q) = Some (question_spec q)))"

text \<open>What \<open>checkExam\<close> leaves as it is.\<close>

definition same_but_tables ::
  "('sc, 'qc, 'c, 'k) ExamGenerator \<Rightarrow> ('sc, 'qc, 'c, 'k) ExamGenerator \<Rightarrow> bool" where
  "same_but_tables g g' \<longleftrightarrow>
     exam g' = exam g \<and> options g' = options g \<and> assignedExams g' = assignedExams g \<and>
     assignedExamsByUniqname g' = assignedExamsByUniqname g"

text \<open>
  The sections and questions of the exams assigned so far, and what it means for a newly
  built exam to bring spec drift: one of its sections (or questions) has the id of a
  section (or question) assigned before or in the same exam, and another specification.
\<close>

definition sections_seen :: "('sc, 'qc, 'c, 'k) ExamGenerator \<Rightarrow> ('qc, 'c, 'k) Section list" where
  "sections_seen g = concat (map assigned_sections_of (assignedExams g))"

definition questions_seen :: "('sc, 'qc, 'c, 'k) ExamGenerator \<Rightarrow> ('c, 'k) Question list" where
  "questions_seen g = concat (map assigned_questions_of (assignedExams g))"

definition introduces_drift ::
  "('sc, 'qc, 'c, 'k) ExamGenerator \<Rightarrow> ('sc, 'qc, 'c, 'k) AssignedExam \<Rightarrow> bool" where
  "introduces_drift g ae \<longleftrightarrow>
     (\<exists>s\<in>set (assigned_sections_of ae). \<exists>s0\<in>set (sections_seen g @ assigned_sections_of ae).
        section_id s0 = section_id s \<and> section_spec s0 \<noteq> section_spec s) \<or>
     (\<exists>q\<in>set (assigned_questions_of ae). \<exists>q0\<in>set (questions_seen g @ assigned_questions_of ae).
        question_id q0 = question_id q \<and> question_spec q0 \<noteq> question_spec q)"

text \<open>An exam none of whose section and question ids is an inherited name.\<close>

definition own_ids :: "('sc, 'qc, 'c, 'k) AssignedExam \<Rightarrow> bool" where
  "own_ids ae \<longleftrightarrow>
     (\<forall>s\<in>set (assigned_sections_of ae). \<not> inherited (section_id s)) \<and>
     (\<forall>q\<in>set (assigned_questions_of ae). \<not> inherited (question_id q))"

text \<open>
  The sections and the questions that a run has assigned, each as its id with its
  specification object, in the order of assignment; or the error the run ends with.
\<close>

definition specifications_assigned ::
  "error + (unit \<times> ('sc, 'qc, 'c, 'k) ExamGenerator \<times> 'w)
   \<Rightarrow> error + ((string \<times> spec_ref) list \<times> (string \<times> spec_ref) list)" where
  "specifications_assigned result =
     map_sum id
       (\<lambda>(u, (g, w)). (map (\<lambda>s. (section_id s, section_spec s)) (sections_seen g),
                       map (\<lambda>q. (question_id q, question_spec q)) (questions_seen g)))
       result"

text \<open>Options for the runs below: the defaults, and the defaults with one key set.\<close>

definition default_options :: ExamGeneratorOptions where
  "default_options = assign_options no_options"

definition choose_all_options :: ExamGeneratorOptions where
  "choose_all_options = assign_options (no_options\<lparr>opt_choose_all := Some True\<rparr>)"

definition consistent_options :: ExamGeneratorOptions where
  "consistent_options = assign_options (no_options\<lparr>opt_consistent_randomization := Some True\<rparr>)"

text \<open>
  A roster file whose content is the rows that the parser returns for it, a second one
  with a row whose name is empty, a third with a row whose uniqname is empty.
\<close>

definition demo_rows :: "RosterRow list" where
  "demo_rows = [\<lparr>row_uniqname = Some ''al'', row_name = Some ''Al''\<rparr>,
                \<lparr>row_uniqname = Some ''bob'', row_name = Some ''Bob''\<rparr>]"

definition demo_files :: "string \<rightharpoonup> RosterRow list" where
  "demo_files =
     [''roster.csv'' \<mapsto> demo_rows,
      ''no_name.csv'' \<mapsto> demo_rows @ [\<lparr>row_uniqname = Some ''cy'', row_name = Some []\<rparr>],
      ''no_uniqname.csv'' \<mapsto> \<lparr>row_uniqname = Some [], row_name = Some ''Di''\<rparr> # demo_rows]"

text \<open>
  Choosers that depend on the student only through the randomizer they are given, and
  what an assigned exam selects: its sections, their questions and the skins of both,
  with their positions (everything but the uuids and the student).
\<close>

definition student_blind :: "('sc, 'qc, 'c, 'k, 'r, 'w) Collaborators \<Rightarrow> bool" where
  "student_blind env \<longleftrightarrow>
     (\<forall>chooser ex s1 s2 r. chooseSections env chooser ex s1 r = chooseSections env chooser ex s2 r) \<and>
     (\<forall>chooser ex s1 s2 r. chooseQuestions env chooser ex s1 r = chooseQuestions env chooser ex s2 r) \<and>
     (\<forall>chooser ex s1 s2 r. skin_choose env chooser ex s1 r = skin_choose env chooser ex s2 r)"

definition question_selection ::
  "('sc, 'c, 'k) AssignedQuestion \<Rightarrow> ('c, 'k) Question \<times> 'k \<times> nat \<times> nat" where
  "question_selection aq = (aq_question aq, aq_skin aq, aq_sectionIndex aq, aq_partIndex aq)"

definition section_selection ::
  "('sc, 'qc, 'c, 'k) AssignedSection
   \<Rightarrow> ('qc, 'c, 'k) Section \<times> 'k \<times> nat \<times> (('c, 'k) Question \<times> 'k \<times> nat \<times> nat) list" where
  "section_selection a =
     (as_section a, as_skin a, as_sectionIndex a, map question_selection (as_assignedQuestions a))"

definition selection ::
  "('sc, 'qc, 'c, 'k) AssignedExam
   \<Rightarrow> (('qc, 'c, 'k) Section \<times> 'k \<times> nat \<times> (('c, 'k) Question \<times> 'k \<times> nat \<times> nat) list) list" where
  "selection ae = map section_selection (ae_assignedSections ae)"

text \<open>
  An exam whose one section and whose questions choose their skins, and the skins of an
  assigned exam: per section, its skin and the skins of its questions.
\<close>

definition demo_exam_skins :: demo_exam where
  "demo_exam_skins = \<lparr> exam_id = ''exam4'', exam_sections = [[demo_sectionB]] \<rparr>"

definition skins_assigned :: "('sc, 'qc, 'c, 'k) AssignedExam \<Rightarrow> ('k \<times> 'k list) list" where
  "skins_assigned ae =
     map (\<lambda>a. (as_skin a, map aq_skin (as_assignedQuestions a))) (ae_assignedSections ae)"

text \<open>The skins of the exam that a build returns, or the error it ends with.\<close>

definition skins_built ::
  "error + (('sc, 'qc, 'c, 'k) AssignedExam \<times> 'w) \<Rightarrow> error + ('k \<times> 'k list) list" where
  "skins_built result = map_sum id (\<lambda>(ae, w). skins_assigned ae) result"

section \<open>Notions used in the statements about specification files\<close>






section \<open>Basic facts about sequencing\<close>

lemma bindE_eq_Inr: "bindE m f = Inr y \<longleftrightarrow> (\<exists>x. m = Inr x \<and> f x = Inr y)"
  by (cases m) simp_all

lemma bindE_eq_Inl: "bindE m f = Inl e \<longleftrightarrow> m = Inl e \<or> (\<exists>x. m = Inr x \<and> f x = Inl e)"
  by (cases m) simp_all

lemma assert_eq_Inr: "assert c e = Inr u \<longleftrightarrow> c"
  by (simp add: assert_def)

lemma assert_eq_Inl: "assert c e = Inl e' \<longleftrightarrow> \<not> c \<and> e' = e"
  by (auto simp: assert_def)

lemma thrown_eq_Inr: "thrown r = Inr x \<longleftrightarrow> r = Inr x"
  by (cases r) simp_all

lemma thrown_eq_Inl: "thrown r = Inl e \<longleftrightarrow> (\<exists>m. r = Inl m \<and> e = Thrown m)"
  by (cases r) auto

lemma unitM_eq_Inr: "unitM x s = Inr (y, s') \<longleftrightarrow> y = x \<and> s' = s"
  by (auto simp: unitM_def)

lemma unitM_neq_Inl: "unitM x s \<noteq> Inl e"
  by (simp add: unitM_def)

lemma liftE_eq_Inr: "liftE r s = Inr (x, s') \<longleftrightarrow> r = Inr x \<and> s' = s"
  by (cases r) (auto simp: liftE_def)

lemma liftE_eq_Inl: "liftE r s = Inl e \<longleftrightarrow> r = Inl e"
  by (cases r) (auto simp: liftE_def)

lemma bindM_eq_Inr:
  "bindM m f s = Inr (y, s'') \<longleftrightarrow> (\<exists>x s'. m s = Inr (x, s') \<and> f x s' = Inr (y, s''))"
  by (cases "m s") (auto simp: bindM_def)

lemma bindM_eq_Inl:
  "bindM m f s = Inl e \<longleftrightarrow> m s = Inl e \<or> (\<exists>x s'. m s = Inr (x, s') \<and> f x s' = Inl e)"
  by (cases "m s") (auto simp: bindM_def)

lemma mapM_Inr_Cons:
  "mapM f (x # xs) s = Inr (zs, s'') \<longleftrightarrow>
     (\<exists>y ys s'. f x s = Inr (y, s') \<and> mapM f xs s' = Inr (ys, s'') \<and> zs = y # ys)"
  by (auto simp: bindM_eq_Inr unitM_eq_Inr)

lemma mapM_Inl_Cons:
  "mapM f (x # xs) s = Inl e \<longleftrightarrow>
     f x s = Inl e \<or> (\<exists>y s'. f x s = Inr (y, s') \<and> mapM f xs s' = Inl e)"
  by (auto simp: bindM_eq_Inl unitM_neq_Inl)

lemma mapM_Inr_set:
  "mapM f xs s = Inr (ys, s') \<Longrightarrow> y \<in> set ys \<Longrightarrow> \<exists>x\<in>set xs. \<exists>s1 s2. f x s1 = Inr (y, s2)"
proof (induction xs arbitrary: s ys)
  case Nil
  then show ?case by (simp add: unitM_eq_Inr)
next
  case (Cons x xs)
  from Cons.prems(1) obtain z zs s1 where
    step: "f x s = Inr (z, s1)" and rest: "mapM f xs s1 = Inr (zs, s')" and ys: "ys = z # zs"
    unfolding mapM_Inr_Cons by blast
  show ?case
  proof (cases "y = z")
    case True
    with step show ?thesis by auto
  next
    case False
    with Cons.prems(2) ys have "y \<in> set zs" by simp
    from Cons.IH [OF rest this] show ?thesis by auto
  qed
qed

lemma mapM_Inr_length: "mapM f xs s = Inr (ys, s') \<Longrightarrow> length ys = length xs"
proof (induction xs arbitrary: s ys)
  case Nil
  then show ?case by (simp add: unitM_eq_Inr)
next
  case (Cons x xs)
  from Cons.prems obtain z zs s1 where
    "mapM f xs s1 = Inr (zs, s')" "ys = z # zs"
    unfolding mapM_Inr_Cons by blast
  with Cons.IH show ?case by auto
qed

lemma flatMapM_Inr_set:
  assumes "flatMapM f xs s = Inr (ys, s')" and "y \<in> set ys"
  shows "\<exists>x\<in>set xs. \<exists>zs s1 s2. f x s1 = Inr (zs, s2) \<and> y \<in> set zs"
proof -
  from assms(1) obtain yss where m: "mapM f xs s = Inr (yss, s')" and ys: "ys = concat yss"
    by (auto simp: flatMapM_def bindM_eq_Inr unitM_eq_Inr)
  from assms(2) ys obtain zs where zs: "zs \<in> set yss" "y \<in> set zs" by auto
  from mapM_Inr_set [OF m zs(1)] zs(2) show ?thesis by blast
qed

lemma flatMapiM_Inr_set:
  assumes "flatMapiM f xs s = Inr (ys, s')" and "y \<in> set ys"
  shows "\<exists>x\<in>set xs. \<exists>i zs s1 s2. f x i s1 = Inr (zs, s2) \<and> y \<in> set zs"
proof -
  from flatMapM_Inr_set [OF assms(1) [unfolded flatMapiM_def] assms(2)]
  obtain p zs s1 s2 where p: "p \<in> set (enumerate 0 xs)"
    and run: "(case p of (i, x) \<Rightarrow> f x i) s1 = Inr (zs, s2)" and y: "y \<in> set zs"
    by blast
  obtain i x where px: "p = (i, x)" by (cases p)
  with p have "x \<in> set xs" by (auto simp: in_set_enumerate_eq)
  with run y px show ?thesis by (intro bexI [of _ x]) auto
qed

lemma onSnd_eq_Inr:
  "onSnd m (r, w) = Inr (x, (r', w')) \<longleftrightarrow> m w = Inr (x, w') \<and> r' = r"
  by (cases "m w") (auto simp: onSnd_def)

lemma onFst_eq_Inr:
  "onFst m (r, w) = Inr (x, (r', w')) \<longleftrightarrow> m r = Inr (x, r') \<and> w' = w"
  by (cases "m r") (auto simp: onFst_def)

lemma withLocal_eq_Inr:
  "withLocal r m w = Inr (x, w') \<longleftrightarrow> (\<exists>r'. m (r, w) = Inr (x, (r', w')))"
  by (cases "m (r, w)") (auto simp: withLocal_def)

lemma mapM_invariant:
  assumes "mapM f xs s = Inr (ys, s')" and "P s"
    and "\<And>x s y s'. x \<in> set xs \<Longrightarrow> P s \<Longrightarrow> f x s = Inr (y, s') \<Longrightarrow> P s'"
  shows "P s'"
  using assms
proof (induction xs arbitrary: s ys)
  case Nil
  then show ?case by (simp add: unitM_eq_Inr)
next
  case (Cons x xs)
  from Cons.prems(1) obtain z zs s1 where
    a: "f x s = Inr (z, s1)" and b: "mapM f xs s1 = Inr (zs, s')"
    unfolding mapM_Inr_Cons by blast
  from Cons.prems(3) [OF _ Cons.prems(2) a] have "P s1" by simp
  show ?case
  proof (rule Cons.IH [OF b \<open>P s1\<close>])
    fix y t u t' assume "y \<in> set xs" "P t" "f y t = Inr (u, t')"
    then show "P t'" using Cons.prems(3) [of y t u t'] by simp
  qed
qed

lemma mapM_Inl_append:
  "mapM f xs s = Inr (ys, s1) \<Longrightarrow> f x s1 = Inl e \<Longrightarrow> mapM f (xs @ x # zs) s = Inl e"
proof (induction xs arbitrary: s ys)
  case Nil
  then have "f x s = Inl e" by (simp add: unitM_eq_Inr)
  then show ?case unfolding append_Nil mapM_Inl_Cons by simp
next
  case (Cons a xs)
  from Cons.prems(1) obtain z zs' s' where
    a: "f a s = Inr (z, s')" and b: "mapM f xs s' = Inr (zs', s1)"
    unfolding mapM_Inr_Cons by blast
  from Cons.IH [OF b Cons.prems(2)] a show ?case
    unfolding append_Cons mapM_Inl_Cons by blast
qed

lemma forEachE_Inr_Cons:
  "forEachE f (x # xs) s = Inr s'' \<longleftrightarrow> (\<exists>s'. f x s = Inr s' \<and> forEachE f xs s' = Inr s'')"
  by (simp add: bindE_eq_Inr)

lemma forEachE_Inl_Cons:
  "forEachE f (x # xs) s = Inl e \<longleftrightarrow> f x s = Inl e \<or> (\<exists>s'. f x s = Inr s' \<and> forEachE f xs s' = Inl e)"
  by (simp add: bindE_eq_Inl)

lemma forEachE_invariant:
  assumes "forEachE f xs s = Inr s'" and "P s"
    and "\<And>x s s'. x \<in> set xs \<Longrightarrow> P s \<Longrightarrow> f x s = Inr s' \<Longrightarrow> P s'"
  shows "P s'"
  using assms
proof (induction xs arbitrary: s)
  case Nil
  then show ?case by simp
next
  case (Cons x xs)
  from Cons.prems(1) obtain s1 where a: "f x s = Inr s1" and b: "forEachE f xs s1 = Inr s'"
    unfolding forEachE_Inr_Cons by blast
  from Cons.prems(3) [OF _ Cons.prems(2) a] have "P s1" by simp
  show ?case
  proof (rule Cons.IH [OF b \<open>P s1\<close>])
    fix y t t' assume "y \<in> set xs" "P t" "f y t = Inr t'"
    then show "P t'" using Cons.prems(3) [of y t t'] by simp
  qed
qed

lemma forEachE_errors:
  assumes "forEachE f xs s = Inl e"
  shows "\<exists>x\<in>set xs. \<exists>s1. f x s1 = Inl e"
  using assms
proof (induction xs arbitrary: s)
  case Nil
  then show ?case by simp
next
  case (Cons x xs)
  then show ?case unfolding forEachE_Inl_Cons by (auto; blast)
qed

text \<open>
  What a successful pass of a counting loop leaves in its table; the keys in \<open>skipped\<close>
  may pass without a trace.
\<close>

lemma forEachE_table:
  assumes run: "forEachE f xs g = Inr g'"
    and step: "\<And>x g g'. f x g = Inr g' \<Longrightarrow>
                 (skipped (key x) \<and> rep g' = rep g) \<or>
                 ((rep g (key x) = None \<or> rep g (key x) = Some (val x)) \<and>
                  rep g' = (rep g)(key x \<mapsto> val x))"
  shows "(\<forall>k v. rep g k = Some v \<longrightarrow> rep g' k = Some v) \<and>
         (\<forall>x\<in>set xs. \<not> skipped (key x) \<longrightarrow> rep g' (key x) = Some (val x))"
  using run
proof (induction xs arbitrary: g)
  case Nil
  then show ?case by simp
next
  case (Cons x xs)
  from Cons.prems obtain g1 where a: "f x g = Inr g1" and b: "forEachE f xs g1 = Inr g'"
    unfolding forEachE_Inr_Cons by blast
  from Cons.IH [OF b] have i1: "\<forall>k v. rep g1 k = Some v \<longrightarrow> rep g' k = Some v"
    and i2: "\<forall>x\<in>set xs. \<not> skipped (key x) \<longrightarrow> rep g' (key x) = Some (val x)" by simp_all
  from step [OF a] show ?case
  proof
    assume s: "skipped (key x) \<and> rep g1 = rep g"
    with i1 have "\<forall>k v. rep g k = Some v \<longrightarrow> rep g' k = Some v" by simp
    with s i2 show ?thesis by simp
  next
    assume s: "(rep g (key x) = None \<or> rep g (key x) = Some (val x)) \<and>
               rep g1 = (rep g)(key x \<mapsto> val x)"
    then have s1: "rep g (key x) = None \<or> rep g (key x) = Some (val x)"
      and s2: "rep g1 = (rep g)(key x \<mapsto> val x)" by simp_all
    have "rep g1 (key x) = Some (val x)" using s2 by simp
    with i1 have here: "rep g' (key x) = Some (val x)" by simp
    have "rep g' k = Some v" if "rep g k = Some v" for k v
    proof (cases "k = key x")
      case True
      with that s1 have "v = val x" by auto
      with here True show ?thesis by simp
    next
      case False
      with that s2 have "rep g1 k = Some v" by simp
      with i1 show ?thesis by simp
    qed
    with here i2 show ?thesis by simp
  qed
qed

section \<open>Configuration errors\<close>

text \<open>
  C6. With the strategy \<^verbatim>\<open>"uuidv5"\<close>, constructing a generator without a namespace or
  with a namespace of fewer than 16 characters fails in the constructor, so that no
  generator exists to process a student with; a namespace of at least 16 characters
  passes \<open>verifyOptions\<close> and the constructor returns the fresh generator.
\<close>

theorem uuidv5_namespace_verified_at_construction:
  "(opt_uuid_strategy opts = Some uuidv5 \<and>
      (case opt_uuidv5_namespace opts of None \<Rightarrow> True | Some ns \<Rightarrow> length ns < 16)
      \<longrightarrow> (new_ExamGenerator ex opts :: error + ('sc, 'qc, 'c, 'k) ExamGenerator) =
            Inl (if truthy_string (opt_uuidv5_namespace opts)
                 then Uuidv5NamespaceTooShort else Uuidv5NamespaceMissing))
   \<and> ((case opt_uuidv5_namespace opts of None \<Rightarrow> False | Some ns \<Rightarrow> 16 \<le> length ns)
      \<longrightarrow> verifyOptions opts = Inr () \<and>
          (new_ExamGenerator ex opts :: error + ('sc, 'qc, 'c, 'k) ExamGenerator) =
            Inr \<lparr> exam = ex, assignedExams = [], assignedExamsByUniqname = Map.empty,
                  sectionsMap = Map.empty, questionsMap = Map.empty,
                  sectionStatsMap = Map.empty, questionStatsMap = Map.empty,
                  options = assign_options opts \<rparr>)"
  by (cases "opt_uuidv5_namespace opts")
     (auto simp: new_ExamGenerator_def verifyOptions_def assert_def)

theorem uuidv5_namespace_verified_at_construction_witness:
  "(new_ExamGenerator demo_exam_fixed (no_options\<lparr>opt_uuid_strategy := Some uuidv5\<rparr>)
      :: error + demo_generator)
     = Inl Uuidv5NamespaceMissing
   \<and> (new_ExamGenerator demo_exam_fixed
       (no_options\<lparr>opt_uuid_strategy := Some uuidv5, opt_uuidv5_namespace := Some ''0123456789abcde''\<rparr>)
      :: error + demo_generator)
     = Inl Uuidv5NamespaceTooShort
   \<and> verifyOptions
       (no_options\<lparr>opt_uuid_strategy := Some uuidv5, opt_uuidv5_namespace := Some ''0123456789abcdef''\<rparr>)
     = Inr ()"
  using uuidv5_namespace_verified_at_construction
          [where opts = "no_options\<lparr>opt_uuid_strategy := Some uuidv5\<rparr>"
             and ex = demo_exam_fixed and 'qc = "demo_question list" and 'c = "string list"
             and 'k = string]
        uuidv5_namespace_verified_at_construction
          [where opts = "no_options\<lparr>opt_uuid_strategy := Some uuidv5,
                            opt_uuidv5_namespace := Some ''0123456789abcde''\<rparr>"
             and ex = demo_exam_fixed and 'qc = "demo_question list" and 'c = "string list"
             and 'k = string]
        uuidv5_namespace_verified_at_construction
          [where opts = "no_options\<lparr>opt_uuid_strategy := Some uuidv5,
                            opt_uuidv5_namespace := Some ''0123456789abcdef''\<rparr>"
             and ex = demo_exam_fixed and 'qc = "demo_question list" and 'c = "string list"
             and 'k = string]
  by (simp add: no_options_def)

section \<open>What a built exam looks like\<close>

lemma createStudentUuid_plain:
  "uuid_strategy opts = plain \<Longrightarrow>
     createStudentUuid env opts student ident w = Inr (uniqname student @ ''-'' @ ident, w)"
  by (simp add: createStudentUuid_def unitM_def)

lemma createRandomizedQuestion_Inr:
  assumes "createRandomizedQuestion env opts ex question student sectionIndex partIndex sectionSkin w
             = Inr (aqs, w')"
    and "aq \<in> set aqs"
  shows "\<exists>uuid skin w1 w2.
           createStudentUuid env opts student (exam_id ex @ ''-q-'' @ question_id question) w1
             = Inr (uuid, w2) \<and>
           aq = new_AssignedQuestion uuid ex student question skin sectionIndex partIndex []"
proof -
  from assms(1) obtain skins w0 where
    m: "mapM (\<lambda>questionSkin.
               bindM (createStudentUuid env opts student
                        (exam_id ex @ ''-q-'' @ question_id question))
                 (\<lambda>uuid. unitM (new_AssignedQuestion uuid ex student question questionSkin
                                  sectionIndex partIndex [])))
             skins w0 = Inr (aqs, w')"
    unfolding createRandomizedQuestion_def bindM_eq_Inr by blast
  from mapM_Inr_set [OF m assms(2)] show ?thesis
    by (auto simp: bindM_eq_Inr unitM_eq_Inr)
qed

lemma createRandomizedSection_Inr:
  assumes "createRandomizedSection env opts ex section student sectionIndex w = Inr (ass, w')"
    and "a \<in> set ass"
  shows "\<exists>uuid skin w1 w2.
           createStudentUuid env opts student (exam_id ex @ ''-s-'' @ section_id section) w1
             = Inr (uuid, w2) \<and>
           as_uuid a = uuid \<and> as_section a = section \<and> as_sectionIndex a = sectionIndex \<and>
           (\<forall>aq\<in>set (as_assignedQuestions a).
              \<exists>q partIndex aqs w3 w4.
                createRandomizedQuestion env opts ex q student sectionIndex partIndex skin w3
                  = Inr (aqs, w4) \<and> aq \<in> set aqs)"
proof -
  let ?body = "\<lambda>sectionSkin.
      bindM (onSnd (createStudentUuid env opts student
                      (exam_id ex @ ''-s-'' @ section_id section)))
        (\<lambda>uuid.
           bindM (onFst (flatMapM (\<lambda>chooser r. thrown (chooseQuestions env chooser ex student r))
                           (section_questions section)))
             (\<lambda>questions.
                bindM (onSnd (flatMapiM (\<lambda>q partIndex.
                                createRandomizedQuestion env opts ex q student
                                  sectionIndex partIndex sectionSkin)
                              questions))
                  (\<lambda>assignedQuestions.
                     unitM (new_AssignedSection uuid section sectionIndex
                              sectionSkin assignedQuestions))))"
  from assms(1) obtain skins r0 w0 r' where
    m: "mapM ?body skins (r0, w0) = Inr (ass, (r', w'))"
    unfolding createRandomizedSection_def bindM_eq_Inr withLocal_eq_Inr by blast
  from mapM_Inr_set [OF m assms(2)] obtain skin s1 s2 where
    b: "?body skin s1 = Inr (a, s2)" by blast
  obtain r1 w1 where s1: "s1 = (r1, w1)" by (cases s1)
  obtain r2 w2 where s2: "s2 = (r2, w2)" by (cases s2)
  from b [unfolded s1 s2 bindM_eq_Inr] obtain uuid sa qs sb aqs sc where
    u: "onSnd (createStudentUuid env opts student
                 (exam_id ex @ ''-s-'' @ section_id section)) (r1, w1) = Inr (uuid, sa)"
    and q: "onSnd (flatMapiM (\<lambda>q partIndex.
                     createRandomizedQuestion env opts ex q student sectionIndex partIndex skin)
                   qs) sb = Inr (aqs, sc)"
    and a: "unitM (new_AssignedSection uuid section sectionIndex skin aqs) sc = Inr (a, (r2, w2))"
    by blast
  obtain ra wa where sa: "sa = (ra, wa)" by (cases sa)
  obtain rb wb where sb: "sb = (rb, wb)" by (cases sb)
  obtain rc wc where sc: "sc = (rc, wc)" by (cases sc)
  from u sa have u': "createStudentUuid env opts student
                        (exam_id ex @ ''-s-'' @ section_id section) w1 = Inr (uuid, wa)"
    by (simp add: onSnd_eq_Inr)
  from q sb sc have q': "flatMapiM (\<lambda>q partIndex.
                     createRandomizedQuestion env opts ex q student sectionIndex partIndex skin)
                   qs wb = Inr (aqs, wc)"
    by (simp add: onSnd_eq_Inr)
  from a have a': "a = new_AssignedSection uuid section sectionIndex skin aqs"
    by (simp add: unitM_eq_Inr)
  have "\<forall>aq\<in>set (as_assignedQuestions a).
              \<exists>q partIndex aqs w3 w4.
                createRandomizedQuestion env opts ex q student sectionIndex partIndex skin w3
                  = Inr (aqs, w4) \<and> aq \<in> set aqs"
  proof
    fix aq assume "aq \<in> set (as_assignedQuestions a)"
    with a' have "aq \<in> set aqs" by (simp add: new_AssignedSection_def)
    from flatMapiM_Inr_set [OF q' this] show "\<exists>q partIndex aqs w3 w4.
                createRandomizedQuestion env opts ex q student sectionIndex partIndex skin w3
                  = Inr (aqs, w4) \<and> aq \<in> set aqs" by blast
  qed
  with u' a' show ?thesis
    by (auto simp: new_AssignedSection_def)
qed

lemma buildAssignedExam_Inr:
  assumes "buildAssignedExam env opts ex student w = Inr (ae, w')"
  shows "\<exists>uuid ass w1.
           createStudentUuid env opts student (exam_id ex) w = Inr (uuid, w1) \<and>
           ae = new_AssignedExam uuid ex student ass (allow_duplicates opts) \<and>
           (\<forall>a\<in>set ass. \<exists>s i ass' w2 w3.
              createRandomizedSection env opts ex s student i w2 = Inr (ass', w3) \<and> a \<in> set ass')"
proof -
  from assms obtain uuid w1 secs w2 ass w3 where
    u: "createStudentUuid env opts student (exam_id ex) w = Inr (uuid, w1)"
    and f: "flatMapiM (\<lambda>s sectionIndex.
                createRandomizedSection env opts ex s student sectionIndex) secs w2 = Inr (ass, w3)"
    and a: "unitM (new_AssignedExam uuid ex student ass (allow_duplicates opts)) w3 = Inr (ae, w')"
    unfolding buildAssignedExam_def bindM_eq_Inr by blast
  have "\<forall>a\<in>set ass. \<exists>s i ass' w2 w3.
              createRandomizedSection env opts ex s student i w2 = Inr (ass', w3) \<and> a \<in> set ass'"
    using flatMapiM_Inr_set [OF f] by blast
  with u a show ?thesis by (auto simp: unitM_eq_Inr)
qed

lemma plain_uuids_of_exam:
  assumes plain: "uuid_strategy opts = plain"
    and build: "buildAssignedExam env opts ex student w = Inr (ae, w')"
  shows "ae_uuid ae = uniqname student @ ''-'' @ exam_id ex"
    and "ae_student ae = student"
    and "\<forall>a\<in>set (ae_assignedSections ae).
           as_uuid a = uniqname student @ ''-'' @ exam_id ex @ ''-s-'' @ section_id (as_section a)"
    and "\<forall>a\<in>set (ae_assignedSections ae). \<forall>aq\<in>set (as_assignedQuestions a).
           aq_uuid aq = uniqname student @ ''-'' @ exam_id ex @ ''-q-'' @ question_id (aq_question aq)"
proof -
  from buildAssignedExam_Inr [OF build] obtain uuid ass w1 where
    u: "createStudentUuid env opts student (exam_id ex) w = Inr (uuid, w1)"
    and ae: "ae = new_AssignedExam uuid ex student ass (allow_duplicates opts)"
    and secs: "\<forall>a\<in>set ass. \<exists>s i ass' w2 w3.
              createRandomizedSection env opts ex s student i w2 = Inr (ass', w3) \<and> a \<in> set ass'"
    by blast
  from u plain ae show "ae_uuid ae = uniqname student @ ''-'' @ exam_id ex"
    by (simp add: createStudentUuid_plain new_AssignedExam_def)
  from ae show "ae_student ae = student" by (simp add: new_AssignedExam_def)
  have sec: "as_uuid a = uniqname student @ ''-'' @ exam_id ex @ ''-s-'' @ section_id (as_section a)
      \<and> (\<forall>aq\<in>set (as_assignedQuestions a).
           aq_uuid aq = uniqname student @ ''-'' @ exam_id ex @ ''-q-'' @ question_id (aq_question aq))"
    if "a \<in> set ass" for a
  proof -
    from secs that obtain s i ass' w2 w3 where
      "createRandomizedSection env opts ex s student i w2 = Inr (ass', w3)" "a \<in> set ass'"
      by blast
    from createRandomizedSection_Inr [OF this] obtain suuid skin wa wb where
      su: "createStudentUuid env opts student (exam_id ex @ ''-s-'' @ section_id s) wa
             = Inr (suuid, wb)"
      and a: "as_uuid a = suuid" "as_section a = s"
      and qs: "\<forall>aq\<in>set (as_assignedQuestions a).
              \<exists>q partIndex aqs w3 w4.
                createRandomizedQuestion env opts ex q student i partIndex skin w3
                  = Inr (aqs, w4) \<and> aq \<in> set aqs"
      by blast
    have "aq_uuid aq = uniqname student @ ''-'' @ exam_id ex @ ''-q-'' @ question_id (aq_question aq)"
      if "aq \<in> set (as_assignedQuestions a)" for aq
    proof -
      from qs that obtain q partIndex aqs w3 w4 where
        "createRandomizedQuestion env opts ex q student i partIndex skin w3 = Inr (aqs, w4)"
        "aq \<in> set aqs" by blast
      from createRandomizedQuestion_Inr [OF this] plain show ?thesis
        by (auto simp: createStudentUuid_plain new_AssignedQuestion_def)
    qed
    with su a plain show ?thesis by (auto simp: createStudentUuid_plain)
  qed
  from sec ae show "\<forall>a\<in>set (ae_assignedSections ae).
           as_uuid a = uniqname student @ ''-'' @ exam_id ex @ ''-s-'' @ section_id (as_section a)"
    by (simp add: new_AssignedExam_def)
  from sec ae show "\<forall>a\<in>set (ae_assignedSections ae). \<forall>aq\<in>set (as_assignedQuestions a).
           aq_uuid aq = uniqname student @ ''-'' @ exam_id ex @ ''-q-'' @ question_id (aq_question aq)"
    by (simp add: new_AssignedExam_def)
qed

lemma distinct_map_prefixed:
  assumes "distinct (map key xs)" and "\<forall>x\<in>set xs. f x = pre @ key x"
  shows "distinct (map f xs)"
proof -
  from assms(1) have d: "distinct xs" and i: "inj_on key (set xs)"
    by (simp_all add: distinct_map)
  have "inj_on f (set xs)"
  proof (rule inj_onI)
    fix a b assume "a \<in> set xs" "b \<in> set xs" "f a = f b"
    with assms(2) have "key a = key b" by simp
    with i \<open>a \<in> set xs\<close> \<open>b \<in> set xs\<close> show "a = b" by (auto dest: inj_onD)
  qed
  with d show ?thesis by (simp add: distinct_map)
qed

section \<open>What the consistency check establishes\<close>

lemma countSection_step:
  assumes "countSection s g = Inr g'"
  shows "(inherited (section_id s) \<and> section_representative g' = section_representative g) \<or>
         ((section_representative g (section_id s) = None \<or>
           section_representative g (section_id s) = Some (section_spec s)) \<and>
          section_representative g' = (section_representative g)(section_id s \<mapsto> section_spec s))"
  using assms
  by (cases "sectionStatsMap g (section_id s)")
     (auto simp: countSection_def section_representative_def fun_eq_iff Let_def
                 bindE_eq_Inr assert_eq_Inr split: if_splits)

lemma countQuestion_step:
  assumes "countQuestion q g = Inr g'"
  shows "(inherited (question_id q) \<and> question_representative g' = question_representative g) \<or>
         ((question_representative g (question_id q) = None \<or>
           question_representative g (question_id q) = Some (question_spec q)) \<and>
          question_representative g' = (question_representative g)(question_id q \<mapsto> question_spec q))"
  using assms
  by (cases "questionStatsMap g (question_id q)")
     (auto simp: countQuestion_def question_representative_def fun_eq_iff Let_def
                 bindE_eq_Inr assert_eq_Inr split: if_splits)

lemma countSection_frame:
  "countSection s g = Inr g' \<Longrightarrow>
     same_but_tables g g' \<and> question_representative g' = question_representative g"
  by (cases "sectionStatsMap g (section_id s)")
     (auto simp: countSection_def same_but_tables_def question_representative_def Let_def
                 bindE_eq_Inr assert_eq_Inr split: if_splits)

lemma countQuestion_frame:
  "countQuestion q g = Inr g' \<Longrightarrow>
     same_but_tables g g' \<and> section_representative g' = section_representative g"
  by (cases "questionStatsMap g (question_id q)")
     (auto simp: countQuestion_def same_but_tables_def section_representative_def Let_def
                 bindE_eq_Inr assert_eq_Inr split: if_splits)

lemma fold_trackSection_frame:
  "same_but_tables g (fold trackSection xs g) \<and>
   section_representative (fold trackSection xs g) = section_representative g \<and>
   question_representative (fold trackSection xs g) = question_representative g"
  by (induction xs arbitrary: g)
     (auto simp: trackSection_def same_but_tables_def section_representative_def
                 question_representative_def)

lemma fold_trackQuestion_frame:
  "same_but_tables g (fold trackQuestion xs g) \<and>
   section_representative (fold trackQuestion xs g) = section_representative g \<and>
   question_representative (fold trackQuestion xs g) = question_representative g"
  by (induction xs arbitrary: g)
     (auto simp: trackQuestion_def same_but_tables_def section_representative_def
                 question_representative_def)

lemma checkExam_Inr:
  assumes "checkExam g ae = Inr g'"
  shows "same_but_tables g g'"
    and "\<forall>k v. section_representative g k = Some v \<longrightarrow> section_representative g' k = Some v"
    and "\<forall>k v. question_representative g k = Some v \<longrightarrow> question_representative g' k = Some v"
    and "\<forall>s\<in>set (assigned_sections_of ae).
           \<not> inherited (section_id s) \<longrightarrow>
           section_representative g' (section_id s) = Some (section_spec s)"
    and "\<forall>q\<in>set (assigned_questions_of ae).
           \<not> inherited (question_id q) \<longrightarrow>
           question_representative g' (question_id q) = Some (question_spec q)"
proof -
  let ?g1 = "fold trackSection (assigned_sections_of ae) g"
  from assms obtain g2 where
    a: "forEachE countSection (assigned_sections_of ae) ?g1 = Inr g2"
    and b: "forEachE countQuestion (assigned_questions_of ae)
              (fold trackQuestion (assigned_questions_of ae) g2) = Inr g'"
    by (auto simp: checkExam_def Let_def bindE_eq_Inr)
  let ?g3 = "fold trackQuestion (assigned_questions_of ae) g2"
  note f1 = fold_trackSection_frame [of g "assigned_sections_of ae"]
  note f3 = fold_trackQuestion_frame [of g2 "assigned_questions_of ae"]
  have f2: "same_but_tables ?g1 g2 \<and> question_representative g2 = question_representative ?g1"
    by (rule forEachE_invariant [OF a, where P = "\<lambda>x. same_but_tables ?g1 x \<and> question_representative x = question_representative ?g1"])
       (auto simp: same_but_tables_def dest!: countSection_frame)
  have f4: "same_but_tables ?g3 g' \<and> section_representative g' = section_representative ?g3"
    by (rule forEachE_invariant [OF b, where P = "\<lambda>x. same_but_tables ?g3 x \<and> section_representative x = section_representative ?g3"])
       (auto simp: same_but_tables_def dest!: countQuestion_frame)
  from f1 f2 f3 f4 show "same_but_tables g g'" by (simp add: same_but_tables_def)
  note t1 = forEachE_table [OF a, where rep = section_representative and key = section_id
                              and val = section_spec and skipped = inherited,
                            OF countSection_step]
  note t2 = forEachE_table [OF b, where rep = question_representative and key = question_id
                              and val = question_spec and skipped = inherited,
                            OF countQuestion_step]
  have sr: "section_representative g' = section_representative g2" using f3 f4 by simp
  have qr: "question_representative ?g3 = question_representative g" using f1 f2 f3 by simp
  from t1 f1 sr show "\<forall>k v. section_representative g k = Some v \<longrightarrow> section_representative g' k = Some v"
    by simp
  from t1 sr show "\<forall>s\<in>set (assigned_sections_of ae).
           \<not> inherited (section_id s) \<longrightarrow>
           section_representative g' (section_id s) = Some (section_spec s)"
    by simp
  from t2 qr show "\<forall>k v. question_representative g k = Some v \<longrightarrow> question_representative g' k = Some v"
    by simp
  from t2 show "\<forall>q\<in>set (assigned_questions_of ae).
           \<not> inherited (question_id q) \<longrightarrow>
           question_representative g' (question_id q) = Some (question_spec q)"
    by simp
qed

lemma checkExam_Inl:
  fixes g :: "('sc, 'qc, 'c, 'k) ExamGenerator"
  assumes "checkExam g ae = Inl e"
  shows "(\<exists>s\<in>set (assigned_sections_of ae). e = SectionSpecDrift (section_id s)) \<or>
         (\<exists>q\<in>set (assigned_questions_of ae). e = QuestionSpecDrift (question_id q))"
proof -
  have cs: "e = SectionSpecDrift (section_id s)" if "countSection s g1 = Inl e" for s g1
    using that
    by (cases "sectionStatsMap g1 (section_id s)")
       (auto simp: countSection_def Let_def bindE_eq_Inl assert_eq_Inl split: if_splits)
  have cq: "e = QuestionSpecDrift (question_id q)" if "countQuestion q g1 = Inl e" for q g1
    using that
    by (cases "questionStatsMap g1 (question_id q)")
       (auto simp: countQuestion_def Let_def bindE_eq_Inl assert_eq_Inl split: if_splits)
  from assms have "forEachE countSection (assigned_sections_of ae)
                     (fold trackSection (assigned_sections_of ae) g) = Inl e
      \<or> (\<exists>g2 :: ('sc, 'qc, 'c, 'k) ExamGenerator. forEachE countQuestion (assigned_questions_of ae)
                  (fold trackQuestion (assigned_questions_of ae) g2) = Inl e)"
    by (auto simp: checkExam_def Let_def bindE_eq_Inl)
  then show ?thesis
  proof (elim disjE exE)
    assume "forEachE countSection (assigned_sections_of ae)
              (fold trackSection (assigned_sections_of ae) g) = Inl e"
    from forEachE_errors [OF this] cs show ?thesis by blast
  next
    fix g2 :: "('sc, 'qc, 'c, 'k) ExamGenerator"
    assume "forEachE countQuestion (assigned_questions_of ae)
              (fold trackQuestion (assigned_questions_of ae) g2) = Inl e"
    from forEachE_errors [OF this] cq show ?thesis by blast
  qed
qed

section \<open>What assigning an exam does to the generator\<close>

lemma createRandomizedExam_Inr:
  "createRandomizedExam env student (g, w) = Inr (ae, (g', w')) \<longleftrightarrow>
     buildAssignedExam env (options g) (exam g) student w = Inr (ae, w') \<and> checkExam g ae = Inr g'"
  by (cases "buildAssignedExam env (options g) (exam g) student w")
     (auto simp: createRandomizedExam_def bindE_eq_Inr)

lemma createRandomizedExam_Inl:
  "createRandomizedExam env student (g, w) = Inl e \<longleftrightarrow>
     buildAssignedExam env (options g) (exam g) student w = Inl e \<or>
     (\<exists>ae w'. buildAssignedExam env (options g) (exam g) student w = Inr (ae, w') \<and>
        checkExam g ae = Inl e)"
  by (cases "buildAssignedExam env (options g) (exam g) student w")
     (auto simp: createRandomizedExam_def bindE_eq_Inl)

lemma case_snoc_first:
  "(case xs @ [a] of [] \<Rightarrow> none | first # _ \<Rightarrow> some first) = some (hd (xs @ [a]))"
  by (cases xs) simp_all

lemma assignExam_Inr:
  "assignExam env student (g, w) = Inr (ae, (g', w')) \<longleftrightarrow>
     (\<exists>g1. createRandomizedExam env student (g, w) = Inr (ae, (g1, w')) \<and>
        g' = g1\<lparr> assignedExams := assignedExams g1 @ [ae],
                 assignedExamsByUniqname :=
                   assign_property (uniqname student) ae (assignedExamsByUniqname g1) \<rparr> \<and>
        ae_pointsPossible ae = ae_pointsPossible (hd (assignedExams g1 @ [ae])))"
  unfolding assignExam_def bindM_eq_Inr
  by (auto simp: Let_def case_snoc_first bindE_eq_Inr assert_eq_Inr)

lemma assignExam_frame:
  assumes "assignExam env student (g, w) = Inr (ae, (g', w'))"
  shows "exam g' = exam g" and "options g' = options g"
    and "assignedExams g' = assignedExams g @ [ae]"
    and "ae_student ae = student"
    and "ae_pointsPossible ae = ae_pointsPossible (hd (assignedExams g @ [ae]))"
    and "buildAssignedExam env (options g) (exam g) student w = Inr (ae, w')"
proof -
  from assms obtain g1 where
    c: "createRandomizedExam env student (g, w) = Inr (ae, (g1, w'))"
    and g': "g' = g1\<lparr> assignedExams := assignedExams g1 @ [ae],
                 assignedExamsByUniqname :=
                   assign_property (uniqname student) ae (assignedExamsByUniqname g1) \<rparr>"
    and p: "ae_pointsPossible ae = ae_pointsPossible (hd (assignedExams g1 @ [ae]))"
    unfolding assignExam_Inr by blast
  from c have b: "buildAssignedExam env (options g) (exam g) student w = Inr (ae, w')"
    and k: "checkExam g ae = Inr g1" by (simp_all add: createRandomizedExam_Inr)
  from checkExam_Inr(1) [OF k] have f: "same_but_tables g g1" .
  from f g' show "exam g' = exam g" "options g' = options g" "assignedExams g' = assignedExams g @ [ae]"
    by (simp_all add: same_but_tables_def)
  from f p show "ae_pointsPossible ae = ae_pointsPossible (hd (assignedExams g @ [ae]))"
    by (simp add: same_but_tables_def)
  from b show "buildAssignedExam env (options g) (exam g) student w = Inr (ae, w')" .
  from buildAssignedExam_Inr [OF b] show "ae_student ae = student"
    by (auto simp: new_AssignedExam_def)
qed

lemma assignExams_Inr:
  "assignExams env students s = Inr (u, s') \<longleftrightarrow> (\<exists>aes. mapM (assignExam env) students s = Inr (aes, s'))"
  by (auto simp: assignExams_def bindM_eq_Inr unitM_eq_Inr)

lemma assignExams_Inl:
  "assignExams env students s = Inl e \<longleftrightarrow> mapM (assignExam env) students s = Inl e"
  by (auto simp: assignExams_def bindM_eq_Inl unitM_neq_Inl)

lemma assignExams_invariant:
  assumes run: "assignExams env students (g, w) = Inr (u, (g', w'))"
    and init: "P g"
    and step: "\<And>s g w ae g' w'. s \<in> set students \<Longrightarrow> P g \<Longrightarrow>
                 assignExam env s (g, w) = Inr (ae, (g', w')) \<Longrightarrow> P g'"
  shows "P g'"
proof -
  from run obtain aes where m: "mapM (assignExam env) students (g, w) = Inr (aes, (g', w'))"
    unfolding assignExams_Inr by blast
  have "(P \<circ> fst) (g', w')"
  proof (rule mapM_invariant [OF m])
    show "(P \<circ> fst) (g, w)" using init by simp
  next
    fix x s y s'
    assume "x \<in> set students" "(P \<circ> fst) s" "assignExam env x s = Inr (y, s')"
    then show "(P \<circ> fst) s'" using step [of x "fst s" "snd s" y "fst s'" "snd s'"] by simp
  qed
  then show ?thesis by simp
qed

lemma mapM_assignExam_exams:
  "mapM (assignExam env) students (g, w) = Inr (aes, (g', w')) \<Longrightarrow>
     assignedExams g' = assignedExams g @ aes \<and> map ae_student aes = students \<and>
     exam g' = exam g \<and> options g' = options g"
proof (induction students arbitrary: g w aes)
  case Nil
  then show ?case by (simp add: unitM_eq_Inr)
next
  case (Cons s students)
  from Cons.prems obtain ae rest s1 where
    a: "assignExam env s (g, w) = Inr (ae, s1)"
    and b: "mapM (assignExam env) students s1 = Inr (rest, (g', w'))"
    and aes: "aes = ae # rest"
    unfolding mapM_Inr_Cons by blast
  obtain g1 w1 where s1: "s1 = (g1, w1)" by (cases s1)
  from assignExam_frame [OF a [unfolded s1]] Cons.IH [OF b [unfolded s1]] aes
  show ?case by simp
qed

lemma mapM_assignExam_uuids:
  "mapM (assignExam env) students (g, w) = Inr (aes, (g', w')) \<Longrightarrow>
     uuid_strategy (options g) = plain \<Longrightarrow>
     map ae_uuid aes = map (\<lambda>s. uniqname s @ ''-'' @ exam_id (exam g)) students"
proof (induction students arbitrary: g w aes)
  case Nil
  then show ?case by (simp add: unitM_eq_Inr)
next
  case (Cons s students)
  from Cons.prems(1) obtain ae rest s1 where
    a: "assignExam env s (g, w) = Inr (ae, s1)"
    and b: "mapM (assignExam env) students s1 = Inr (rest, (g', w'))"
    and aes: "aes = ae # rest"
    unfolding mapM_Inr_Cons by blast
  obtain g1 w1 where s1: "s1 = (g1, w1)" by (cases s1)
  note f = assignExam_frame [OF a [unfolded s1]]
  from plain_uuids_of_exam(1) [OF Cons.prems(2) f(6)]
  have "ae_uuid ae = uniqname s @ ''-'' @ exam_id (exam g)" .
  moreover from Cons.IH [OF b [unfolded s1]] f(1,2) Cons.prems(2)
  have "map ae_uuid rest = map (\<lambda>s. uniqname s @ ''-'' @ exam_id (exam g)) students" by simp
  ultimately show ?case using aes by simp
qed

section \<open>UUIDs under the plain strategy\<close>

text \<open>
  C3. Under the strategy \<^verbatim>\<open>"plain"\<close>, \<open>createStudentUuid\<close> returns
  \<^verbatim>\<open>uniqname + "-" + id\<close> whatever the entropy is, and leaves the entropy alone; the
  uuids of the exams that a fresh generator assigns to a roster are, in roster order,
  \<^verbatim>\<open>uniqname + "-" + exam_id\<close>: a function of the roster and the exam alone.
\<close>

theorem plain_uuid_is_uniqname_dash_id:
  "(uuid_strategy opts = plain
      \<longrightarrow> createStudentUuid env opts student ident w = Inr (uniqname student @ ''-'' @ ident, w))
   \<and> (uuid_strategy (options g) = plain \<and> assignedExams g = [] \<and>
        assignExams env students (g, w0) = Inr ((), (g', w'))
      \<longrightarrow> map ae_uuid (assignedExams g')
            = map (\<lambda>s. uniqname s @ ''-'' @ exam_id (exam g)) students)"
proof (intro conjI impI)
  assume "uuid_strategy opts = plain"
  then show "createStudentUuid env opts student ident w = Inr (uniqname student @ ''-'' @ ident, w)"
    by (rule createStudentUuid_plain)
next
  assume h: "uuid_strategy (options g) = plain \<and> assignedExams g = [] \<and>
        assignExams env students (g, w0) = Inr ((), (g', w'))"
  then obtain aes where m: "mapM (assignExam env) students (g, w0) = Inr (aes, (g', w'))"
    unfolding assignExams_Inr by blast
  from mapM_assignExam_exams [OF m] h have "assignedExams g' = aes" by simp
  with mapM_assignExam_uuids [OF m] h
  show "map ae_uuid (assignedExams g') = map (\<lambda>s. uniqname s @ ''-'' @ exam_id (exam g)) students"
    by simp
qed

theorem plain_uuid_is_uniqname_dash_id_witness:
  "createStudentUuid demo_env (assign_options no_options) demo_al ''exam1'' (0::nat)
     = Inr (''al-exam1'', 0)
   \<and> (\<exists>g' w'. assignExams demo_env [demo_al, demo_bob] (demo_generator demo_exam_fixed, 0)
                 = Inr ((), (g', w'))
            \<and> map ae_uuid (assignedExams g') = [''al-exam1'', ''bob-exam1''])"
proof -
  have p: "uuid_strategy (assign_options no_options) = plain"
    by (simp add: assign_options_def no_options_def or_default_def)
  have "case assignExams demo_env [demo_al, demo_bob] (demo_generator demo_exam_fixed, 0) of
          Inr _ \<Rightarrow> True | Inl _ \<Rightarrow> False"
    by code_simp
  then obtain g' w' where
    run: "assignExams demo_env [demo_al, demo_bob] (demo_generator demo_exam_fixed, 0)
            = Inr ((), (g', w'))"
    by (auto split: sum.splits)
  have g: "uuid_strategy (options (demo_generator demo_exam_fixed)) = plain"
    "assignedExams (demo_generator demo_exam_fixed) = []"
    using p by (simp_all add: demo_generator_def)
  from plain_uuid_is_uniqname_dash_id
         [of "assign_options no_options" demo_env demo_al "''exam1''" 0
             "demo_generator demo_exam_fixed" "[demo_al, demo_bob]" 0 g' w']
       p g run
  show ?thesis
    by (simp add: demo_al_def demo_bob_def demo_generator_def demo_exam_fixed_def)
qed

text \<open>
  C10. Under the strategy \<^verbatim>\<open>"plain"\<close>, in one student's exam whose assigned sections
  have pairwise distinct section ids and whose assigned questions have pairwise distinct
  question ids, the uuid of the exam is \<^verbatim>\<open>uniqname-examid\<close>, that of a section
  \<^verbatim>\<open>uniqname-examid-s-sectionid\<close>, that of a question
  \<^verbatim>\<open>uniqname-examid-q-questionid\<close>, all of them are pairwise distinct, and whatever the
  ids are, the uuid made for a section differs from the uuid made for a question.
\<close>

theorem plain_uuids_pairwise_distinct:
  assumes plain: "uuid_strategy (options g) = plain"
    and run: "createRandomizedExam env student (g, w) = Inr (ae, (g', w'))"
    and ds: "distinct (map section_id (assigned_sections_of ae))"
    and dq: "distinct (map question_id (assigned_questions_of ae))"
  shows "ae_uuid ae = uniqname student @ ''-'' @ exam_id (exam g) \<and>
         (\<forall>a\<in>set (ae_assignedSections ae).
            as_uuid a = uniqname student @ ''-'' @ exam_id (exam g) @ ''-s-''
                          @ section_id (as_section a)) \<and>
         (\<forall>aq\<in>set (assigned_question_nodes ae).
            aq_uuid aq = uniqname student @ ''-'' @ exam_id (exam g) @ ''-q-''
                           @ question_id (aq_question aq)) \<and>
         distinct (ae_uuid ae # map as_uuid (ae_assignedSections ae)
                     @ map aq_uuid (assigned_question_nodes ae)) \<and>
         (\<forall>sid qid wa wb.
            map_sum id fst (createStudentUuid env (options g) student
                              (exam_id (exam g) @ ''-s-'' @ sid) wa)
            \<noteq> map_sum id fst (createStudentUuid env (options g) student
                                (exam_id (exam g) @ ''-q-'' @ qid) wb))"
proof -
  let ?pre = "uniqname student @ ''-'' @ exam_id (exam g)"
  from run have build: "buildAssignedExam env (options g) (exam g) student w = Inr (ae, w')"
    by (simp add: createRandomizedExam_Inr)
  note u = plain_uuids_of_exam [OF plain build]
  have s: "\<forall>a\<in>set (ae_assignedSections ae). as_uuid a = (?pre @ ''-s-'') @ section_id (as_section a)"
    using u(3) by simp
  have q: "\<forall>aq\<in>set (assigned_question_nodes ae).
             aq_uuid aq = (?pre @ ''-q-'') @ question_id (aq_question aq)"
    using u(4) by (auto simp: assigned_question_nodes_def)
  have ds': "distinct (map (\<lambda>a. section_id (as_section a)) (ae_assignedSections ae))"
    using ds by (simp add: assigned_sections_of_def comp_def)
  have dq': "distinct (map (\<lambda>aq. question_id (aq_question aq)) (assigned_question_nodes ae))"
    using dq by (simp add: assigned_questions_of_def assigned_question_nodes_def map_concat comp_def)
  have d1: "distinct (map as_uuid (ae_assignedSections ae))"
    by (rule distinct_map_prefixed [OF ds' s])
  have d2: "distinct (map aq_uuid (assigned_question_nodes ae))"
    by (rule distinct_map_prefixed [OF dq' q])
  have x1: "ae_uuid ae \<notin> set (map as_uuid (ae_assignedSections ae))"
    using u(1) s by auto
  have x2: "ae_uuid ae \<notin> set (map aq_uuid (assigned_question_nodes ae))"
    using u(1) q by auto
  have x3: "set (map as_uuid (ae_assignedSections ae))
              \<inter> set (map aq_uuid (assigned_question_nodes ae)) = {}"
    using s q by auto
  from d1 d2 x1 x2 x3 have "distinct (ae_uuid ae # map as_uuid (ae_assignedSections ae)
                     @ map aq_uuid (assigned_question_nodes ae))"
    by simp
  with u(1) u(3) q plain show ?thesis
    by (simp add: createStudentUuid_plain)
qed

theorem plain_uuids_pairwise_distinct_witness:
  "\<exists>ae g' w'. createRandomizedExam demo_env demo_al (demo_generator demo_exam_fixed, 0)
                 = Inr (ae, (g', w'))
     \<and> ae_uuid ae = uniqname demo_al @ ''-'' @ exam_id (exam (demo_generator demo_exam_fixed))
     \<and> distinct (ae_uuid ae # map as_uuid (ae_assignedSections ae)
                   @ map aq_uuid (assigned_question_nodes ae))"
proof -
  have c: "case createRandomizedExam demo_env demo_al (demo_generator demo_exam_fixed, 0) of
             Inr (ae, _) \<Rightarrow> distinct (map section_id (assigned_sections_of ae)) \<and>
                            distinct (map question_id (assigned_questions_of ae))
           | Inl _ \<Rightarrow> False"
    by code_simp
  obtain ae g' w' where
    run: "createRandomizedExam demo_env demo_al (demo_generator demo_exam_fixed, 0)
            = Inr (ae, (g', w'))"
    using c by (cases "createRandomizedExam demo_env demo_al (demo_generator demo_exam_fixed, 0)") auto
  from c have d: "distinct (map section_id (assigned_sections_of ae))"
    "distinct (map question_id (assigned_questions_of ae))"
    unfolding run by simp_all
  have p: "uuid_strategy (options (demo_generator demo_exam_fixed)) = plain"
    by (simp add: demo_generator_def assign_options_def no_options_def or_default_def)
  note t = plain_uuids_pairwise_distinct [OF p run d]
  show ?thesis
    by (rule exI [of _ ae], rule exI [of _ g'], rule exI [of _ w'])
       (intro conjI run t [THEN conjunct1] t [THEN conjunct2, THEN conjunct2, THEN conjunct2, THEN conjunct1])
qed

section \<open>Equal point totals\<close>

text \<open>
  C1. When \<open>assignExams\<close> returns, the generator holds one exam per student of the
  roster, in order, after those it held, and every exam has the \<open>pointsPossible\<close> of the
  first one (given that those it held had). When the exam built for a student has a total
  other than that of the first exam, the assertion of \<open>assignExam\<close> throws and
  \<open>assignExams\<close> ends with that error, whatever students follow.
\<close>

theorem pointsPossible_equal_or_generation_fails:
  "((\<forall>ae\<in>set (assignedExams g). ae_pointsPossible ae = ae_pointsPossible (hd (assignedExams g))) \<and>
      assignExams env students (g, w) = Inr ((), (g', w'))
     \<longrightarrow> map ae_student (assignedExams g') = map ae_student (assignedExams g) @ students \<and>
         (\<forall>ae\<in>set (assignedExams g').
            ae_pointsPossible ae = ae_pointsPossible (hd (assignedExams g'))))
   \<and> (assignExams env before (g, w) = Inr ((), (g1, w1)) \<and> assignedExams g1 = first # others \<and>
        createRandomizedExam env student (g1, w1) = Inr (ae, (g2, w2)) \<and>
        ae_pointsPossible ae \<noteq> ae_pointsPossible first
     \<longrightarrow> assignExams env (before @ student # later) (g, w)
           = Inl (InconsistentPoints (uniqname (ae_student first)) (ae_pointsPossible first)
                    (uniqname (ae_student ae)) (ae_pointsPossible ae)))"
proof (intro conjI impI)
  let ?P = "\<lambda>g. \<forall>ae\<in>set (assignedExams g).
                ae_pointsPossible ae = ae_pointsPossible (hd (assignedExams g))"
  assume h: "?P g \<and> assignExams env students (g, w) = Inr ((), (g', w'))"
  then obtain aes where m: "mapM (assignExam env) students (g, w) = Inr (aes, (g', w'))"
    unfolding assignExams_Inr by blast
  from mapM_assignExam_exams [OF m]
  show "map ae_student (assignedExams g') = map ae_student (assignedExams g) @ students"
    by simp
  have "?P g'"
  proof (rule assignExams_invariant [where P = ?P])
    show "assignExams env students (g, w) = Inr ((), (g', w'))" using h by simp
    show "?P g" using h by simp
  next
    fix s ga wa a gb wb
    assume P: "?P ga" and a: "assignExam env s (ga, wa) = Inr (a, (gb, wb))"
    note f = assignExam_frame [OF a]
    show "?P gb"
    proof
      fix x assume "x \<in> set (assignedExams gb)"
      with f(3) have "x \<in> set (assignedExams ga) \<or> x = a" by auto
      then show "ae_pointsPossible x = ae_pointsPossible (hd (assignedExams gb))"
      proof
        assume x: "x \<in> set (assignedExams ga)"
        with P have "ae_pointsPossible x = ae_pointsPossible (hd (assignedExams ga))" by blast
        moreover from x have "assignedExams ga \<noteq> []" by auto
        with f(3) have "hd (assignedExams gb) = hd (assignedExams ga)" by simp
        ultimately show ?thesis by simp
      next
        assume "x = a"
        with f(3) f(5) show ?thesis by simp
      qed
    qed
  qed
  then show "?P g'" .
next
  assume h: "assignExams env before (g, w) = Inr ((), (g1, w1)) \<and> assignedExams g1 = first # others \<and>
        createRandomizedExam env student (g1, w1) = Inr (ae, (g2, w2)) \<and>
        ae_pointsPossible ae \<noteq> ae_pointsPossible first"
  then obtain aes where m: "mapM (assignExam env) before (g, w) = Inr (aes, (g1, w1))"
    unfolding assignExams_Inr by blast
  from h have "checkExam g1 ae = Inr g2" by (simp add: createRandomizedExam_Inr)
  from checkExam_Inr(1) [OF this] h have "assignedExams g2 = first # others"
    by (simp add: same_but_tables_def)
  moreover from h have "createRandomizedExam env student (g1, w1) = Inr (ae, (g2, w2))"
    and "ae_pointsPossible ae \<noteq> ae_pointsPossible first" by simp_all
  ultimately have "assignExam env student (g1, w1)
           = Inl (InconsistentPoints (uniqname (ae_student first)) (ae_pointsPossible first)
                    (uniqname (ae_student ae)) (ae_pointsPossible ae))"
    by (simp add: assignExam_def bindM_def Let_def assert_def)
  from mapM_Inl_append [OF m this]
  show "assignExams env (before @ student # later) (g, w)
           = Inl (InconsistentPoints (uniqname (ae_student first)) (ae_pointsPossible first)
                    (uniqname (ae_student ae)) (ae_pointsPossible ae))"
    unfolding assignExams_Inl .
qed

theorem pointsPossible_equal_or_generation_fails_witness:
  "(\<exists>g' w'. assignExams demo_env [demo_al, demo_bob] (demo_generator demo_exam_fixed, 0)
               = Inr ((), (g', w'))
          \<and> map ae_student (assignedExams g') = [demo_al, demo_bob]
          \<and> (\<forall>ae\<in>set (assignedExams g').
                ae_pointsPossible ae = ae_pointsPossible (hd (assignedExams g'))))
   \<and> assignExams demo_env ([demo_al] @ demo_bob # []) (demo_generator demo_exam_unequal, 0)
       = Inl (InconsistentPoints ''al'' 8 ''bob'' 7)"
proof (rule conjI)
  have "case assignExams demo_env [demo_al, demo_bob] (demo_generator demo_exam_fixed, 0) of
          Inr _ \<Rightarrow> True | Inl _ \<Rightarrow> False"
    by code_simp
  then obtain g' w' where
    run: "assignExams demo_env [demo_al, demo_bob] (demo_generator demo_exam_fixed, 0)
            = Inr ((), (g', w'))"
    by (auto split: sum.splits)
  have init: "\<forall>ae\<in>set (assignedExams (demo_generator demo_exam_fixed)).
                ae_pointsPossible ae
                  = ae_pointsPossible (hd (assignedExams (demo_generator demo_exam_fixed)))"
    by (simp add: demo_generator_def)
  have e: "assignedExams (demo_generator demo_exam_fixed) = []"
    by (simp add: demo_generator_def)
  from pointsPossible_equal_or_generation_fails
         [where g = "demo_generator demo_exam_fixed" and env = demo_env
            and students = "[demo_al, demo_bob]" and w = 0 and g' = g' and w' = w',
          THEN conjunct1, rule_format, OF conjI, OF init run]
  have ok: "map ae_student (assignedExams g') = [demo_al, demo_bob] \<and>
         (\<forall>ae\<in>set (assignedExams g').
            ae_pointsPossible ae = ae_pointsPossible (hd (assignedExams g')))"
    unfolding e by simp
  show "\<exists>g' w'. assignExams demo_env [demo_al, demo_bob] (demo_generator demo_exam_fixed, 0)
               = Inr ((), (g', w'))
          \<and> map ae_student (assignedExams g') = [demo_al, demo_bob]
          \<and> (\<forall>ae\<in>set (assignedExams g').
                ae_pointsPossible ae = ae_pointsPossible (hd (assignedExams g')))"
    by (rule exI [of _ g'], rule exI [of _ w'])
       (intro conjI run ok [THEN conjunct1] ok [THEN conjunct2])
next
  have c: "case assignExams demo_env [demo_al] (demo_generator demo_exam_unequal, 0) of
          Inr (_, (g1, w1)) \<Rightarrow>
            (case assignedExams g1 of
               first # others \<Rightarrow>
                 (case createRandomizedExam demo_env demo_bob (g1, w1) of
                    Inr (ae, _) \<Rightarrow> ae_pointsPossible first = 8 \<and> ae_pointsPossible ae = 7 \<and>
                      uniqname (ae_student first) = ''al'' \<and> uniqname (ae_student ae) = ''bob''
                  | Inl _ \<Rightarrow> False)
             | [] \<Rightarrow> False)
        | Inl _ \<Rightarrow> False"
    by code_simp
  obtain g1 w1 where
    before: "assignExams demo_env [demo_al] (demo_generator demo_exam_unequal, 0)
               = Inr ((), (g1, w1))"
    using c by (cases "assignExams demo_env [demo_al] (demo_generator demo_exam_unequal, 0)") auto
  from c have c2: "case assignedExams g1 of
               first # others \<Rightarrow>
                 (case createRandomizedExam demo_env demo_bob (g1, w1) of
                    Inr (ae, _) \<Rightarrow> ae_pointsPossible first = 8 \<and> ae_pointsPossible ae = 7 \<and>
                      uniqname (ae_student first) = ''al'' \<and> uniqname (ae_student ae) = ''bob''
                  | Inl _ \<Rightarrow> False)
             | [] \<Rightarrow> False"
    unfolding before by simp
  obtain first others where first: "assignedExams g1 = first # others"
    using c2 by (cases "assignedExams g1") auto
  from c2 have c3: "case createRandomizedExam demo_env demo_bob (g1, w1) of
                    Inr (ae, _) \<Rightarrow> ae_pointsPossible first = 8 \<and> ae_pointsPossible ae = 7 \<and>
                      uniqname (ae_student first) = ''al'' \<and> uniqname (ae_student ae) = ''bob''
                  | Inl _ \<Rightarrow> False"
    unfolding first by simp
  obtain ae g2 w2 where
    next_exam: "createRandomizedExam demo_env demo_bob (g1, w1) = Inr (ae, (g2, w2))"
    using c3 by (cases "createRandomizedExam demo_env demo_bob (g1, w1)") auto
  from c3 have points: "ae_pointsPossible first = 8" "ae_pointsPossible ae = 7"
    "uniqname (ae_student first) = ''al''" "uniqname (ae_student ae) = ''bob''"
    unfolding next_exam by simp_all
  then have differ: "ae_pointsPossible ae \<noteq> ae_pointsPossible first" by simp
  note fails = pointsPossible_equal_or_generation_fails
         [where g = "demo_generator demo_exam_unequal" and env = demo_env
            and before = "[demo_al]" and w = 0 and ?g1.0 = g1 and ?w1.0 = w1 and first = first
            and others = others and student = demo_bob and ae = ae and ?g2.0 = g2 and ?w2.0 = w2
            and later = "[]",
          THEN conjunct2, rule_format,
          OF conjI [OF before conjI [OF first conjI [OF next_exam differ]]]]
  show "assignExams demo_env ([demo_al] @ demo_bob # []) (demo_generator demo_exam_unequal, 0)
       = Inl (InconsistentPoints ''al'' 8 ''bob'' 7)"
    using fails unfolding points .
qed

section \<open>Specification drift\<close>

lemma tables_represent_seen:
  "tables_represent g \<longleftrightarrow>
     (\<forall>s\<in>set (sections_seen g).
        \<not> inherited (section_id s) \<longrightarrow>
        section_representative g (section_id s) = Some (section_spec s)) \<and>
     (\<forall>q\<in>set (questions_seen g).
        \<not> inherited (question_id q) \<longrightarrow>
        question_representative g (question_id q) = Some (question_spec q))"
  by (auto simp: tables_represent_def sections_seen_def questions_seen_def)

lemma checkExam_tables:
  assumes t: "tables_represent g" and c: "checkExam g ae = Inr g1"
  shows "\<forall>s\<in>set (sections_seen g @ assigned_sections_of ae).
           \<not> inherited (section_id s) \<longrightarrow>
           section_representative g1 (section_id s) = Some (section_spec s)"
    and "\<forall>q\<in>set (questions_seen g @ assigned_questions_of ae).
           \<not> inherited (question_id q) \<longrightarrow>
           question_representative g1 (question_id q) = Some (question_spec q)"
proof -
  note k = checkExam_Inr [OF c]
  from t have ts: "\<forall>s\<in>set (sections_seen g).
           \<not> inherited (section_id s) \<longrightarrow>
           section_representative g (section_id s) = Some (section_spec s)"
    and tq: "\<forall>q\<in>set (questions_seen g).
           \<not> inherited (question_id q) \<longrightarrow>
           question_representative g (question_id q) = Some (question_spec q)"
    by (simp_all add: tables_represent_seen)
  from ts k(2) k(4) show "\<forall>s\<in>set (sections_seen g @ assigned_sections_of ae).
           \<not> inherited (section_id s) \<longrightarrow>
           section_representative g1 (section_id s) = Some (section_spec s)"
    by auto
  from tq k(3) k(5) show "\<forall>q\<in>set (questions_seen g @ assigned_questions_of ae).
           \<not> inherited (question_id q) \<longrightarrow>
           question_representative g1 (question_id q) = Some (question_spec q)"
    by auto
qed

lemma assignExam_tables:
  assumes t: "tables_represent g" and a: "assignExam env student (g, w) = Inr (ae, (g', w'))"
  shows "tables_represent g'"
proof -
  from a obtain g1 where
    c: "createRandomizedExam env student (g, w) = Inr (ae, (g1, w'))"
    and g': "g' = g1\<lparr> assignedExams := assignedExams g1 @ [ae],
                 assignedExamsByUniqname :=
                   assign_property (uniqname student) ae (assignedExamsByUniqname g1) \<rparr>"
    unfolding assignExam_Inr by blast
  from c have k: "checkExam g ae = Inr g1" by (simp add: createRandomizedExam_Inr)
  note ct = checkExam_tables [OF t k]
  from checkExam_Inr(1) [OF k] have same: "assignedExams g1 = assignedExams g"
    by (simp add: same_but_tables_def)
  have r: "section_representative g' = section_representative g1"
    "question_representative g' = question_representative g1"
    using g' by (simp_all add: section_representative_def question_representative_def fun_eq_iff)
  have seen: "sections_seen g' = sections_seen g @ assigned_sections_of ae"
    "questions_seen g' = questions_seen g @ assigned_questions_of ae"
    using g' same by (simp_all add: sections_seen_def questions_seen_def)
  show ?thesis
    unfolding tables_represent_seen r seen using ct by simp
qed

lemma drift_makes_checkExam_throw:
  assumes t: "tables_represent g" and d: "introduces_drift g ae" and o: "own_ids ae"
  shows "\<exists>e. checkExam g ae = Inl e \<and>
           ((\<exists>s\<in>set (assigned_sections_of ae). e = SectionSpecDrift (section_id s)) \<or>
            (\<exists>q\<in>set (assigned_questions_of ae). e = QuestionSpecDrift (question_id q)))"
proof (cases "checkExam g ae")
  case (Inl e)
  with checkExam_Inl [OF Inl] show ?thesis by simp
next
  case (Inr g1)
  note ct = checkExam_tables [OF t Inr]
  from d have False
    unfolding introduces_drift_def
  proof
    assume "\<exists>s\<in>set (assigned_sections_of ae). \<exists>s0\<in>set (sections_seen g @ assigned_sections_of ae).
        section_id s0 = section_id s \<and> section_spec s0 \<noteq> section_spec s"
    then obtain s s0 where s: "s \<in> set (assigned_sections_of ae)"
      and s0: "s0 \<in> set (sections_seen g @ assigned_sections_of ae)"
      and same: "section_id s0 = section_id s" and other: "section_spec s0 \<noteq> section_spec s"
      by auto
    from o s have own: "\<not> inherited (section_id s)" by (simp add: own_ids_def)
    from s have "s \<in> set (sections_seen g @ assigned_sections_of ae)" by simp
    with ct(1) own have "section_representative g1 (section_id s) = Some (section_spec s)"
      by blast
    moreover from ct(1) s0 own same
    have "section_representative g1 (section_id s) = Some (section_spec s0)" by metis
    ultimately show False using other by simp
  next
    assume "\<exists>q\<in>set (assigned_questions_of ae). \<exists>q0\<in>set (questions_seen g @ assigned_questions_of ae).
        question_id q0 = question_id q \<and> question_spec q0 \<noteq> question_spec q"
    then obtain q q0 where q: "q \<in> set (assigned_questions_of ae)"
      and q0: "q0 \<in> set (questions_seen g @ assigned_questions_of ae)"
      and same: "question_id q0 = question_id q" and other: "question_spec q0 \<noteq> question_spec q"
      by auto
    from o q have own: "\<not> inherited (question_id q)" by (simp add: own_ids_def)
    from q have "q \<in> set (questions_seen g @ assigned_questions_of ae)" by simp
    with ct(2) own have "question_representative g1 (question_id q) = Some (question_spec q)"
      by blast
    moreover from ct(2) q0 own same
    have "question_representative g1 (question_id q) = Some (question_spec q0)" by metis
    ultimately show False using other by simp
  qed
  then show ?thesis ..
qed

text \<open>
  Under ids that are not inherited names the check does what its comments say. Starting
  from a generator whose tables represent what it has assigned (a fresh one does), when
  \<open>assignExams\<close> returns, any two assigned sections of the whole set with the same such
  \<open>section_id\<close> have the same specification object, and so have any two assigned
  questions with the same such \<open>question_id\<close>. When the exam built for a student has no
  inherited name among its ids and brings drift, within itself or against an exam
  assigned before, \<open>checkExam\<close> throws the error of a section or of a question of that
  exam, and \<open>assignExam\<close> and \<open>assignExams\<close> end with it.
\<close>

lemma drift_detected_unless_inherited:
  "(tables_represent g \<and> assignExams env students (g, w) = Inr ((), (g', w'))
      \<longrightarrow> (\<forall>s1\<in>set (sections_seen g'). \<forall>s2\<in>set (sections_seen g').
             section_id s1 = section_id s2 \<and> \<not> inherited (section_id s1)
             \<longrightarrow> section_spec s1 = section_spec s2) \<and>
          (\<forall>q1\<in>set (questions_seen g'). \<forall>q2\<in>set (questions_seen g').
             question_id q1 = question_id q2 \<and> \<not> inherited (question_id q1)
             \<longrightarrow> question_spec q1 = question_spec q2))
   \<and> (tables_represent g \<and>
        buildAssignedExam env (options g) (exam g) student w = Inr (ae, w1) \<and>
        introduces_drift g ae \<and> own_ids ae
      \<longrightarrow> (\<exists>e. checkExam g ae = Inl e \<and> assignExam env student (g, w) = Inl e \<and>
                assignExams env (student # later) (g, w) = Inl e \<and>
                ((\<exists>s\<in>set (assigned_sections_of ae). e = SectionSpecDrift (section_id s)) \<or>
                 (\<exists>q\<in>set (assigned_questions_of ae). e = QuestionSpecDrift (question_id q)))))"
proof (intro conjI impI)
  assume h: "tables_represent g \<and> assignExams env students (g, w) = Inr ((), (g', w'))"
  have t: "tables_represent g'"
  proof (rule assignExams_invariant [where P = tables_represent])
    show "assignExams env students (g, w) = Inr ((), (g', w'))" using h by simp
    show "tables_represent g" using h by simp
  next
    fix s ga wa a gb wb
    assume "tables_represent ga" "assignExam env s (ga, wa) = Inr (a, (gb, wb))"
    then show "tables_represent gb" by (rule assignExam_tables)
  qed
  from t show "\<forall>s1\<in>set (sections_seen g'). \<forall>s2\<in>set (sections_seen g').
             section_id s1 = section_id s2 \<and> \<not> inherited (section_id s1)
             \<longrightarrow> section_spec s1 = section_spec s2"
    unfolding tables_represent_seen by (metis option.inject)
  from t show "\<forall>q1\<in>set (questions_seen g'). \<forall>q2\<in>set (questions_seen g').
             question_id q1 = question_id q2 \<and> \<not> inherited (question_id q1)
             \<longrightarrow> question_spec q1 = question_spec q2"
    unfolding tables_represent_seen by (metis option.inject)
next
  assume h: "tables_represent g \<and>
        buildAssignedExam env (options g) (exam g) student w = Inr (ae, w1) \<and>
        introduces_drift g ae \<and> own_ids ae"
  then have t: "tables_represent g" and d: "introduces_drift g ae" and o: "own_ids ae"
    and b: "buildAssignedExam env (options g) (exam g) student w = Inr (ae, w1)" by simp_all
  from drift_makes_checkExam_throw [OF t d o] obtain e where
    e: "checkExam g ae = Inl e"
    and kind: "(\<exists>s\<in>set (assigned_sections_of ae). e = SectionSpecDrift (section_id s)) \<or>
               (\<exists>q\<in>set (assigned_questions_of ae). e = QuestionSpecDrift (question_id q))"
    by blast
  from b e have c: "createRandomizedExam env student (g, w) = Inl e"
    unfolding createRandomizedExam_Inl by blast
  then have a: "assignExam env student (g, w) = Inl e"
    by (simp add: assignExam_def bindM_eq_Inl)
  then have "assignExams env (student # later) (g, w) = Inl e"
    unfolding assignExams_Inl mapM_Inl_Cons by simp
  with e a kind show "\<exists>e. checkExam g ae = Inl e \<and> assignExam env student (g, w) = Inl e \<and>
                assignExams env (student # later) (g, w) = Inl e \<and>
                ((\<exists>s\<in>set (assigned_sections_of ae). e = SectionSpecDrift (section_id s)) \<or>
                 (\<exists>q\<in>set (assigned_questions_of ae). e = QuestionSpecDrift (question_id q)))"
    by blast
qed

text \<open>
  C2. Any two assigned sections of the generated set that share a \<open>section_id\<close>, and any
  two assigned questions that share a \<open>question_id\<close>, are to reference the same
  specification object, and generation is to fail with a drift error otherwise; the
  comments in \<open>checkExam\<close> say so too. Under an id that every object inherits the
  assertion is never evaluated. With one section slot of two variants under the id
  \<^verbatim>\<open>constructor\<close>, from the specifications 30 and 31, and in it one question slot of
  two variants under the id \<^verbatim>\<open>toString\<close>, from the specifications 20 and 21, the
  run over two students returns, and they hold sections and questions of one id from
  two specifications. The same kind of slot under the id \<^verbatim>\<open>sectionA\<close> ends the run
  with the drift error at the second student.
\<close>

theorem drift_under_inherited_id_is_not_detected:
  "specifications_assigned
     (assignExams demo_env [demo_al, demo_bob] (demo_generator demo_exam_inherited, 0))
   = Inr ([(''constructor'', 30), (''constructor'', 31)],
          [(''q1'', 1), (''toString'', 21), (''q1'', 1), (''toString'', 20)])
   \<and> specifications_assigned
       (assignExams demo_env [demo_al, demo_bob] (demo_generator demo_exam_drift, 0))
     = Inl (SectionSpecDrift ''sectionA'')"
  by (rule conjI; code_simp)

section \<open>One skin per slot\<close>

lemma mapE_Inr_length: "mapE f xs = Inr ys \<Longrightarrow> length ys = length xs"
  by (induction xs arbitrary: ys) (auto simp: bindE_eq_Inr)

lemma mapE_errors: "mapE f xs = Inl e \<Longrightarrow> \<exists>x\<in>set xs. f x = Inl e"
  by (induction xs) (auto simp: bindE_eq_Inl)

lemma mapM_errors: "mapM f xs s = Inl e \<Longrightarrow> \<exists>x\<in>set xs. \<exists>s1. f x s1 = Inl e"
proof (induction xs arbitrary: s)
  case Nil
  then show ?case by (simp add: unitM_neq_Inl)
next
  case (Cons x xs)
  from Cons.prems have "f x s = Inl e \<or> (\<exists>y s'. f x s = Inr (y, s') \<and> mapM f xs s' = Inl e)"
    unfolding mapM_Inl_Cons .
  then show ?case
  proof (elim disjE exE conjE)
    assume "f x s = Inl e"
    then show ?thesis by auto
  next
    fix y s' assume "mapM f xs s' = Inl e"
    from Cons.IH [OF this] show ?thesis by auto
  qed
qed

lemma flatMapM_errors: "flatMapM f xs s = Inl e \<Longrightarrow> \<exists>x\<in>set xs. \<exists>s1. f x s1 = Inl e"
  by (auto simp: flatMapM_def bindM_eq_Inl unitM_neq_Inl dest: mapM_errors)

lemma flatMapiM_errors: "flatMapiM f xs s = Inl e \<Longrightarrow> \<exists>x\<in>set xs. \<exists>i s1. f x i s1 = Inl e"
proof -
  assume "flatMapiM f xs s = Inl e"
  from flatMapM_errors [OF this [unfolded flatMapiM_def]]
  obtain p s1 where p: "p \<in> set (enumerate 0 xs)" and e: "(case p of (i, x) \<Rightarrow> f x i) s1 = Inl e"
    by blast
  obtain i x where px: "p = (i, x)" by (cases p)
  with p have "x \<in> set xs" by (auto simp: in_set_enumerate_eq)
  with e px show ?thesis by auto
qed

lemma onSnd_eq_Inl: "onSnd m (r, w) = Inl e \<longleftrightarrow> m w = Inl e"
  by (cases "m w") (auto simp: onSnd_def)

lemma onFst_eq_Inl: "onFst m (r, w) = Inl e \<longleftrightarrow> m r = Inl e"
  by (cases "m r") (auto simp: onFst_def)

lemma withLocal_eq_Inl: "withLocal r m w = Inl e \<longleftrightarrow> m (r, w) = Inl e"
  by (cases "m (r, w)") (auto simp: withLocal_def)

text \<open>The errors that each step of the build can end with.\<close>

lemma createStudentUuid_errors:
  "createStudentUuid env opts student ident w = Inl e \<Longrightarrow>
     e = Uuidv5NamespaceAsserted \<or> (\<exists>m. e = Thrown m)"
  by (cases "uuid_strategy opts")
     (auto simp: createStudentUuid_def unitM_neq_Inl bindM_eq_Inl liftE_eq_Inl liftE_eq_Inr
                 assert_eq_Inl thrown_eq_Inl)

lemma chooseSkins_errors:
  "chooseSkins env skin ex student rand = Inl e \<Longrightarrow> \<exists>m. e = Thrown m"
  by (cases skin) (auto simp: chooseSkins_def thrown_eq_Inl)

lemma createRandomizedQuestion_Inl:
  assumes "createRandomizedQuestion env opts ex question student sectionIndex partIndex sectionSkin w
             = Inl e"
  shows "(\<exists>m. e = Thrown m) \<or> e = Uuidv5NamespaceAsserted \<or>
         (e = MultipleQuestionSkins \<and> \<not> allow_duplicates opts \<and>
          (\<exists>skins. chooseSkins env (question_skin question) ex student
                      (questionSkinRand env opts ex student question) = Inr skins \<and>
                    length skins \<noteq> 1))"
proof -
  let ?chosen = "chooseSkins env (question_skin question) ex student
                   (questionSkinRand env opts ex student question)"
  let ?compose = "mapE (\<lambda>qSkin. thrown (createCompositeSkin env sectionSkin qSkin))"
  let ?make = "\<lambda>questionSkin.
                 bindM (createStudentUuid env opts student
                          (exam_id ex @ ''-q-'' @ question_id question))
                   (\<lambda>uuid. unitM (new_AssignedQuestion uuid ex student question questionSkin
                                    sectionIndex partIndex []))"
  from assms consider
    (choose) "?chosen = Inl e"
    | (compose) skins where "?chosen = Inr skins" "?compose skins = Inl e"
    | (assertion) skins composed where "?chosen = Inr skins" "?compose skins = Inr composed"
        "assert (allow_duplicates opts \<or> length composed = 1) MultipleQuestionSkins = Inl e"
    | (make) composed w0 where "mapM ?make composed w0 = Inl e"
    unfolding createRandomizedQuestion_def bindM_eq_Inl liftE_eq_Inl liftE_eq_Inr
      bindE_eq_Inl bindE_eq_Inr
    by blast
  then show ?thesis
  proof cases
    case choose
    then show ?thesis by (auto dest: chooseSkins_errors)
  next
    case compose
    from mapE_errors [OF compose(2)] show ?thesis by (auto simp: thrown_eq_Inl)
  next
    case assertion
    from mapE_Inr_length [OF assertion(2)] assertion(1,3) show ?thesis
      by (auto simp: assert_eq_Inl)
  next
    case make
    from mapM_errors [OF make] obtain skin s1 where
      "?make skin s1 = Inl e" by blast
    then have "createStudentUuid env opts student
                 (exam_id ex @ ''-q-'' @ question_id question) s1 = Inl e"
      by (simp add: bindM_eq_Inl unitM_neq_Inl)
    from createStudentUuid_errors [OF this] show ?thesis by auto
  qed
qed

lemma createRandomizedSection_Inl:
  fixes env :: "('sc, 'qc, 'c, 'k, 'r, 'w) Collaborators"
  assumes "createRandomizedSection env opts ex section student sectionIndex w = Inl e"
  shows "(\<exists>m. e = Thrown m) \<or> e = Uuidv5NamespaceAsserted \<or> e = MultipleQuestionSkins \<or>
         (e = MultipleSectionSkins \<and> \<not> allow_duplicates opts \<and>
          (\<exists>skins. chooseSkins env (section_skin section) ex student
                      (sectionSkinRand env opts ex student section) = Inr skins \<and>
                    length skins \<noteq> 1))"
proof -
  let ?chosen = "chooseSkins env (section_skin section) ex student
                   (sectionSkinRand env opts ex student section)"
  let ?body = "\<lambda>sectionSkin.
      bindM (onSnd (createStudentUuid env opts student
                      (exam_id ex @ ''-s-'' @ section_id section)))
        (\<lambda>uuid.
           bindM (onFst (flatMapM (\<lambda>chooser r. thrown (chooseQuestions env chooser ex student r))
                           (section_questions section)))
             (\<lambda>questions.
                bindM (onSnd (flatMapiM (\<lambda>q partIndex.
                                createRandomizedQuestion env opts ex q student
                                  sectionIndex partIndex sectionSkin)
                              questions))
                  (\<lambda>assignedQuestions.
                     unitM (new_AssignedSection uuid section sectionIndex
                              sectionSkin assignedQuestions))))"
  from assms consider
    (choose) "?chosen = Inl e"
    | (assertion) skins where "?chosen = Inr skins"
        "assert (allow_duplicates opts \<or> length skins = 1) MultipleSectionSkins = Inl e"
    | (body) skins s0 where "mapM ?body skins s0 = Inl e"
    unfolding createRandomizedSection_def bindM_eq_Inl liftE_eq_Inl liftE_eq_Inr withLocal_eq_Inl
    by blast
  then show ?thesis
  proof cases
    case choose
    then show ?thesis by (auto dest: chooseSkins_errors)
  next
    case assertion
    then show ?thesis by (auto simp: assert_eq_Inl)
  next
    case body
    from mapM_errors [OF body] obtain skin s1 where b: "?body skin s1 = Inl e" by blast
    obtain r1 w1 where s1: "s1 = (r1, w1)" by (cases s1)
    from b [unfolded s1 bindM_eq_Inl] consider
      (uuid) "onSnd (createStudentUuid env opts student
                       (exam_id ex @ ''-s-'' @ section_id section)) (r1, w1) = Inl e"
      | (questions) sa :: "'r \<times> 'w" where
          "onFst (flatMapM (\<lambda>chooser r. thrown (chooseQuestions env chooser ex student r))
                    (section_questions section)) sa = Inl e"
      | (assigned) qs and sb :: "'r \<times> 'w" where
          "onSnd (flatMapiM (\<lambda>q partIndex.
                     createRandomizedQuestion env opts ex q student sectionIndex partIndex skin)
                   qs) sb = Inl e"
      by (auto simp: unitM_neq_Inl)
    then show ?thesis
    proof cases
      case uuid
      then have "createStudentUuid env opts student
                   (exam_id ex @ ''-s-'' @ section_id section) w1 = Inl e"
        by (simp add: onSnd_eq_Inl)
      from createStudentUuid_errors [OF this] show ?thesis by auto
    next
      case questions
      obtain ra wa where "sa = (ra, wa)" by (cases sa)
      with questions have "flatMapM (\<lambda>chooser r. thrown (chooseQuestions env chooser ex student r))
                    (section_questions section) ra = Inl e"
        by (simp add: onFst_eq_Inl)
      from flatMapM_errors [OF this] show ?thesis by (auto simp: thrown_eq_Inl)
    next
      case assigned
      obtain rb wb where "sb = (rb, wb)" by (cases sb)
      with assigned have "flatMapiM (\<lambda>q partIndex.
                     createRandomizedQuestion env opts ex q student sectionIndex partIndex skin)
                   qs wb = Inl e"
        by (simp add: onSnd_eq_Inl)
      from flatMapiM_errors [OF this] obtain q i s2 where
        "createRandomizedQuestion env opts ex q student sectionIndex i skin s2 = Inl e"
        by blast
      from createRandomizedQuestion_Inl [OF this] show ?thesis by auto
    qed
  qed
qed

text \<open>
  C8. With \<open>allow_duplicates\<close> false, a section whose skin chooser yields a list of a
  length other than 1 makes \<open>createRandomizedSection\<close> throw its assertion, before any
  uuid is made; a question whose skin chooser yields such a list makes
  \<open>createRandomizedQuestion\<close> throw: its assertion, unless the skin compositor, which
  runs on every chosen skin before the assertion, threw first. Conversely, neither
  assertion is what the call ends with when \<open>allow_duplicates\<close> is true or the chooser
  yields exactly one skin.
\<close>

theorem one_skin_per_slot_or_assertion:
  "(\<not> allow_duplicates opts \<and>
      chooseSkins env (section_skin sect) ex student
        (sectionSkinRand env opts ex student sect) = Inr skins \<and> length skins \<noteq> 1
     \<longrightarrow> createRandomizedSection env opts ex sect student sectionIndex w
           = Inl MultipleSectionSkins)
   \<and> (\<not> allow_duplicates opts \<and>
        chooseSkins env (question_skin question) ex student
          (questionSkinRand env opts ex student question) = Inr qskins \<and> length qskins \<noteq> 1
     \<longrightarrow> createRandomizedQuestion env opts ex question student sectionIndex partIndex sectionSkin w
           = Inl (case mapE (\<lambda>qSkin. thrown (createCompositeSkin env sectionSkin qSkin)) qskins of
                    Inl thrown_by_compositor \<Rightarrow> thrown_by_compositor
                  | Inr _ \<Rightarrow> MultipleQuestionSkins))
   \<and> (allow_duplicates opts \<or>
        (\<exists>k. chooseSkins env (section_skin sect) ex student
                (sectionSkinRand env opts ex student sect) = Inr [k])
     \<longrightarrow> createRandomizedSection env opts ex sect student sectionIndex w
           \<noteq> Inl MultipleSectionSkins)
   \<and> (allow_duplicates opts \<or>
        (\<exists>k. chooseSkins env (question_skin question) ex student
                (questionSkinRand env opts ex student question) = Inr [k])
     \<longrightarrow> createRandomizedQuestion env opts ex question student sectionIndex partIndex sectionSkin w
           \<noteq> Inl MultipleQuestionSkins)"
proof (intro conjI impI)
  assume "\<not> allow_duplicates opts \<and>
      chooseSkins env (section_skin sect) ex student
        (sectionSkinRand env opts ex student sect) = Inr skins \<and> length skins \<noteq> 1"
  then show "createRandomizedSection env opts ex sect student sectionIndex w
           = Inl MultipleSectionSkins"
    by (simp add: createRandomizedSection_def bindM_def liftE_def assert_def)
next
  assume h: "\<not> allow_duplicates opts \<and>
        chooseSkins env (question_skin question) ex student
          (questionSkinRand env opts ex student question) = Inr qskins \<and> length qskins \<noteq> 1"
  show "createRandomizedQuestion env opts ex question student sectionIndex partIndex sectionSkin w
           = Inl (case mapE (\<lambda>qSkin. thrown (createCompositeSkin env sectionSkin qSkin)) qskins of
                    Inl thrown_by_compositor \<Rightarrow> thrown_by_compositor
                  | Inr _ \<Rightarrow> MultipleQuestionSkins)"
  proof (cases "mapE (\<lambda>qSkin. thrown (createCompositeSkin env sectionSkin qSkin)) qskins")
    case (Inl e)
    with h show ?thesis
      by (simp add: createRandomizedQuestion_def bindM_def liftE_def)
  next
    case (Inr composed)
    from mapE_Inr_length [OF Inr] h have "length composed \<noteq> 1" by simp
    with Inr h show ?thesis
      by (simp add: createRandomizedQuestion_def bindM_def liftE_def assert_def)
  qed
next
  assume h: "allow_duplicates opts \<or>
        (\<exists>k. chooseSkins env (section_skin sect) ex student
                (sectionSkinRand env opts ex student sect) = Inr [k])"
  show "createRandomizedSection env opts ex sect student sectionIndex w
           \<noteq> Inl MultipleSectionSkins"
  proof
    assume "createRandomizedSection env opts ex sect student sectionIndex w
              = Inl MultipleSectionSkins"
    from createRandomizedSection_Inl [OF this] h show False by auto
  qed
next
  assume h: "allow_duplicates opts \<or>
        (\<exists>k. chooseSkins env (question_skin question) ex student
                (questionSkinRand env opts ex student question) = Inr [k])"
  show "createRandomizedQuestion env opts ex question student sectionIndex partIndex sectionSkin w
           \<noteq> Inl MultipleQuestionSkins"
  proof
    assume "createRandomizedQuestion env opts ex question student sectionIndex partIndex sectionSkin w
              = Inl MultipleQuestionSkins"
    from createRandomizedQuestion_Inl [OF this] h show False by auto
  qed
qed


theorem one_skin_per_slot_or_assertion_witness:
  "createRandomizedSection demo_env choose_all_options demo_exam_unequal demo_sectionB demo_al 0 (0::nat)
     = Inl MultipleSectionSkins
   \<and> createRandomizedQuestion demo_env choose_all_options demo_exam_unequal demo_q3 demo_al 0 1
       ''green'' (0::nat)
     = Inl MultipleQuestionSkins
   \<and> createRandomizedSection demo_env default_options demo_exam_unequal demo_sectionB demo_al 0 (0::nat)
     \<noteq> Inl MultipleSectionSkins
   \<and> createRandomizedQuestion demo_env default_options demo_exam_unequal demo_q3 demo_al 0 1
       ''green'' (0::nat)
     \<noteq> Inl MultipleQuestionSkins"
proof -
  have strict: "\<not> allow_duplicates choose_all_options"
    by code_simp
  have two_section_skins:
    "chooseSkins demo_env (section_skin demo_sectionB) demo_exam_unequal demo_al
       (sectionSkinRand demo_env choose_all_options demo_exam_unequal demo_al demo_sectionB)
     = Inr [''green'', ''yellow'']"
    by code_simp
  have two_question_skins:
    "chooseSkins demo_env (question_skin demo_q3) demo_exam_unequal demo_al
       (questionSkinRand demo_env choose_all_options demo_exam_unequal demo_al demo_q3)
     = Inr [''red'', ''blue'']"
    by code_simp
  have composed:
    "mapE (\<lambda>qSkin. thrown (createCompositeSkin demo_env ''green'' qSkin)) [''red'', ''blue'']
     = Inr [''green+red'', ''green+blue'']"
    by code_simp
  have one_section_skin:
    "chooseSkins demo_env (section_skin demo_sectionB) demo_exam_unequal demo_al
       (sectionSkinRand demo_env default_options demo_exam_unequal demo_al demo_sectionB)
     = Inr [''green'']"
    by code_simp
  have one_question_skin:
    "chooseSkins demo_env (question_skin demo_q3) demo_exam_unequal demo_al
       (questionSkinRand demo_env default_options demo_exam_unequal demo_al demo_q3)
     = Inr [''red'']"
    by code_simp
  note sec = one_skin_per_slot_or_assertion
      [where opts = choose_all_options and env = demo_env and sect = demo_sectionB
         and ex = demo_exam_unequal and student = demo_al and skins = "[''green'', ''yellow'']"
         and sectionIndex = 0 and w = "0::nat",
       THEN conjunct1, rule_format, OF conjI [OF strict conjI [OF two_section_skins]]]
  note que = one_skin_per_slot_or_assertion
      [where opts = choose_all_options and env = demo_env and question = demo_q3
         and ex = demo_exam_unequal and student = demo_al and qskins = "[''red'', ''blue'']"
         and sectionIndex = 0 and partIndex = 1 and sectionSkin = "''green''" and w = "0::nat",
       THEN conjunct2, THEN conjunct1, rule_format, OF conjI [OF strict conjI [OF two_question_skins]],
       unfolded composed]
  note sec_ok = one_skin_per_slot_or_assertion
      [where opts = default_options and env = demo_env and sect = demo_sectionB
         and ex = demo_exam_unequal and student = demo_al
         and sectionIndex = 0 and w = "0::nat",
       THEN conjunct2, THEN conjunct2, THEN conjunct1, rule_format,
       OF disjI2, OF exI, OF one_section_skin]
  note que_ok = one_skin_per_slot_or_assertion
      [where opts = default_options and env = demo_env and question = demo_q3
         and ex = demo_exam_unequal and student = demo_al
         and sectionIndex = 0 and partIndex = 1 and sectionSkin = "''green''" and w = "0::nat",
       THEN conjunct2, THEN conjunct2, THEN conjunct2, rule_format,
       OF disjI2, OF exI, OF one_question_skin]
  from sec que sec_ok que_ok show ?thesis by simp
qed

section \<open>Roster rows\<close>

lemma checkRosterRow_Inr:
  "checkRosterRow s u = Inr u' \<longleftrightarrow> row_uniqname s \<noteq> Some [] \<and> row_name s \<noteq> Some []"
  by (auto simp: checkRosterRow_def bindE_eq_Inr assert_eq_Inr)

lemma checkRosterRow_Inl:
  "checkRosterRow s u = Inl e \<Longrightarrow> e = EmptyUniqname \<or> e = EmptyName"
  by (auto simp: checkRosterRow_def bindE_eq_Inl assert_eq_Inl)

lemma forEachE_checkRosterRow:
  "forEachE checkRosterRow rows () = Inr ()
     \<longleftrightarrow> (\<forall>s\<in>set rows. row_uniqname s \<noteq> Some [] \<and> row_name s \<noteq> Some [])"
  by (induction rows) (auto simp: bindE_eq_Inr checkRosterRow_Inr)

text \<open>
  C9. For a roster file that exists: when some parsed row has the empty string as its
  uniqname or as its name, \<open>loadCSVRoster\<close> throws one of its two assertions; when no
  row has, it returns every parsed row, in order.
\<close>

theorem roster_rows_with_empty_fields_rejected:
  "fs filename = Some content \<Longrightarrow>
     ((\<exists>s\<in>set (papa_parse content). row_uniqname s = Some [] \<or> row_name s = Some [])
        \<longrightarrow> loadCSVRoster papa_parse fs filename = Inl EmptyUniqname \<or>
            loadCSVRoster papa_parse fs filename = Inl EmptyName)
     \<and> ((\<forall>s\<in>set (papa_parse content). row_uniqname s \<noteq> Some [] \<and> row_name s \<noteq> Some [])
        \<longrightarrow> loadCSVRoster papa_parse fs filename = Inr (papa_parse content))"
proof (intro conjI impI)
  assume f: "fs filename = Some content"
  assume bad: "\<exists>s\<in>set (papa_parse content). row_uniqname s = Some [] \<or> row_name s = Some []"
  show "loadCSVRoster papa_parse fs filename = Inl EmptyUniqname \<or>
        loadCSVRoster papa_parse fs filename = Inl EmptyName"
  proof (cases "forEachE checkRosterRow (papa_parse content) ()")
    case (Inl e)
    from forEachE_errors [OF Inl] have "e = EmptyUniqname \<or> e = EmptyName"
      by (auto dest: checkRosterRow_Inl)
    with Inl f show ?thesis
      by (auto simp: loadCSVRoster_def readFileSync_def Let_def)
  next
    case (Inr u)
    then have "forEachE checkRosterRow (papa_parse content) () = Inr ()" by simp
    with bad show ?thesis unfolding forEachE_checkRosterRow by blast
  qed
next
  assume f: "fs filename = Some content"
  assume "\<forall>s\<in>set (papa_parse content). row_uniqname s \<noteq> Some [] \<and> row_name s \<noteq> Some []"
  then have "forEachE checkRosterRow (papa_parse content) () = Inr ()"
    unfolding forEachE_checkRosterRow .
  with f show "loadCSVRoster papa_parse fs filename = Inr (papa_parse content)"
    by (simp add: loadCSVRoster_def readFileSync_def Let_def)
qed

theorem roster_rows_with_empty_fields_rejected_witness:
  "loadCSVRoster (\<lambda>rows. rows) demo_files ''roster.csv'' = Inr demo_rows
   \<and> loadCSVRoster (\<lambda>rows. rows) demo_files ''no_name.csv'' = Inl EmptyName
   \<and> loadCSVRoster (\<lambda>rows. rows) demo_files ''no_uniqname.csv'' = Inl EmptyUniqname"
proof -
  have f1: "demo_files ''roster.csv'' = Some demo_rows"
    by (simp add: demo_files_def)
  have ok: "\<forall>s\<in>set demo_rows. row_uniqname s \<noteq> Some [] \<and> row_name s \<noteq> Some []"
    by (simp add: demo_rows_def)
  have f2: "demo_files ''no_name.csv''
              = Some (demo_rows @ [\<lparr>row_uniqname = Some ''cy'', row_name = Some []\<rparr>])"
    by (simp add: demo_files_def)
  have bad2: "\<exists>s\<in>set (demo_rows @ [\<lparr>row_uniqname = Some ''cy'', row_name = Some []\<rparr>]).
                row_uniqname s = Some [] \<or> row_name s = Some []"
    by simp
  have f3: "demo_files ''no_uniqname.csv''
              = Some (\<lparr>row_uniqname = Some [], row_name = Some ''Di''\<rparr> # demo_rows)"
    by (simp add: demo_files_def)
  have bad3: "\<exists>s\<in>set (\<lparr>row_uniqname = Some [], row_name = Some ''Di''\<rparr> # demo_rows).
                row_uniqname s = Some [] \<or> row_name s = Some []"
    by simp
  have n2: "loadCSVRoster (\<lambda>rows. rows) demo_files ''no_name.csv'' \<noteq> Inl EmptyUniqname"
    by (simp add: loadCSVRoster_def readFileSync_def f2 demo_rows_def checkRosterRow_def assert_def)
  have n3: "loadCSVRoster (\<lambda>rows. rows) demo_files ''no_uniqname.csv'' \<noteq> Inl EmptyName"
    by (simp add: loadCSVRoster_def readFileSync_def f3 demo_rows_def checkRosterRow_def assert_def)
  from roster_rows_with_empty_fields_rejected
         [where papa_parse = "\<lambda>rows. rows" and fs = demo_files and filename = "''roster.csv''"
            and content = "demo_rows", OF f1,
         THEN conjunct2, THEN mp, OF ok]
       roster_rows_with_empty_fields_rejected
         [where papa_parse = "\<lambda>rows. rows" and fs = demo_files and filename = "''no_name.csv''"
            and content = "demo_rows @ [\<lparr>row_uniqname = Some ''cy'', row_name = Some []\<rparr>]", OF f2,
         THEN conjunct1, THEN mp, OF bad2]
       roster_rows_with_empty_fields_rejected
         [where papa_parse = "\<lambda>rows. rows" and fs = demo_files and filename = "''no_uniqname.csv''"
            and content = "\<lparr>row_uniqname = Some [], row_name = Some ''Di''\<rparr> # demo_rows", OF f3,
         THEN conjunct1, THEN mp, OF bad3]
       n2 n3
  show ?thesis by simp
qed

section \<open>Consistent randomization\<close>

lemma mapM_related:
  assumes "mapM f xs s = Inr (ys, s')" and "mapM g xs t = Inr (zs, t')" and "S s t"
    and step: "\<And>x s t y s' z t'. x \<in> set xs \<Longrightarrow> S s t \<Longrightarrow> f x s = Inr (y, s') \<Longrightarrow>
                 g x t = Inr (z, t') \<Longrightarrow> Q y z \<and> S s' t'"
  shows "list_all2 Q ys zs \<and> S s' t'"
  using assms
proof (induction xs arbitrary: s t ys zs)
  case Nil
  then show ?case by (simp add: unitM_eq_Inr)
next
  case (Cons x xs)
  from Cons.prems(1) obtain y ys1 s1 where
    f: "f x s = Inr (y, s1)" "mapM f xs s1 = Inr (ys1, s')" "ys = y # ys1"
    unfolding mapM_Inr_Cons by blast
  from Cons.prems(2) obtain z zs1 t1 where
    g: "g x t = Inr (z, t1)" "mapM g xs t1 = Inr (zs1, t')" "zs = z # zs1"
    unfolding mapM_Inr_Cons by blast
  from Cons.prems(4) [OF _ Cons.prems(3) f(1) g(1)] have here: "Q y z" "S s1 t1" by simp_all
  have "list_all2 Q ys1 zs1 \<and> S s' t'"
  proof (rule Cons.IH [OF f(2) g(2) here(2)])
    fix a sa ta b sb c tb
    assume "a \<in> set xs" "S sa ta" "f a sa = Inr (b, sb)" "g a ta = Inr (c, tb)"
    then show "Q b c \<and> S sb tb" using Cons.prems(4) [of a sa ta b sb c tb] by simp
  qed
  with here f(3) g(3) show ?case by simp
qed

lemma concat_related:
  "list_all2 (\<lambda>ys zs. map h ys = map h' zs) yss zss \<Longrightarrow> map h (concat yss) = map h' (concat zss)"
  by (induction rule: list_all2_induct) simp_all

lemma flatMapM_related:
  assumes "flatMapM f xs s = Inr (ys, s')" and "flatMapM g xs t = Inr (zs, t')" and "S s t"
    and step: "\<And>x s t y s' z t'. x \<in> set xs \<Longrightarrow> S s t \<Longrightarrow> f x s = Inr (y, s') \<Longrightarrow>
                 g x t = Inr (z, t') \<Longrightarrow> map h y = map h' z \<and> S s' t'"
  shows "map h ys = map h' zs \<and> S s' t'"
proof -
  from assms(1) obtain yss where a: "mapM f xs s = Inr (yss, s')" "ys = concat yss"
    by (auto simp: flatMapM_def bindM_eq_Inr unitM_eq_Inr)
  from assms(2) obtain zss where b: "mapM g xs t = Inr (zss, t')" "zs = concat zss"
    by (auto simp: flatMapM_def bindM_eq_Inr unitM_eq_Inr)
  have "list_all2 (\<lambda>ys zs. map h ys = map h' zs) yss zss \<and> S s' t'"
    by (rule mapM_related [where S = S and Q = "\<lambda>ys zs. map h ys = map h' zs",
                           OF a(1) b(1) assms(3)])
       (rule step)
  with a(2) b(2) show ?thesis by (simp add: concat_related)
qed

lemma flatMapiM_related:
  assumes "flatMapiM f xs s = Inr (ys, s')" and "flatMapiM g xs t = Inr (zs, t')" and "S s t"
    and step: "\<And>x i s t y s' z t'. x \<in> set xs \<Longrightarrow> S s t \<Longrightarrow> f x i s = Inr (y, s') \<Longrightarrow>
                 g x i t = Inr (z, t') \<Longrightarrow> map h y = map h' z \<and> S s' t'"
  shows "map h ys = map h' zs \<and> S s' t'"
proof (rule flatMapM_related [where S = S and h = h and h' = h',
          OF assms(1) [unfolded flatMapiM_def] assms(2) [unfolded flatMapiM_def] assms(3)])
  fix p sa ta y sb z tb
  assume p: "p \<in> set (enumerate 0 xs)" and "S sa ta"
    and "(case p of (i, x) \<Rightarrow> f x i) sa = Inr (y, sb)"
    and "(case p of (i, x) \<Rightarrow> g x i) ta = Inr (z, tb)"
  moreover obtain i x where "p = (i, x)" by (cases p)
  moreover from this p have "x \<in> set xs" by (auto simp: in_set_enumerate_eq)
  ultimately show "map h y = map h' z \<and> S sb tb" using step [of x sa ta i y sb z tb] by simp
qed

text \<open>Two students with the same seed, under choosers that do not look at the student.\<close>

lemma student_blindD:
  assumes "student_blind env"
  shows "chooseSections env chooser ex s1 r = chooseSections env chooser ex s2 r"
    and "chooseQuestions env qchooser ex s1 r = chooseQuestions env qchooser ex s2 r"
    and "skin_choose env schooser ex s1 r = skin_choose env schooser ex s2 r"
  using assms unfolding student_blind_def by blast+

lemma chooseSkins_blind:
  "student_blind env \<Longrightarrow> chooseSkins env skin ex s1 r = chooseSkins env skin ex s2 r"
  by (cases skin) (simp_all add: chooseSkins_def student_blindD(3) [of env _ ex s1 r s2])

lemma rands_same_seed:
  assumes "makeSeed opts s1 = makeSeed opts s2"
  shows "sectionChoiceRand env opts ex s1 = sectionChoiceRand env opts ex s2"
    and "questionChoiceRand env opts ex s1 sect = questionChoiceRand env opts ex s2 sect"
    and "sectionSkinRand env opts ex s1 sect = sectionSkinRand env opts ex s2 sect"
    and "questionSkinRand env opts ex s1 q = questionSkinRand env opts ex s2 q"
  using assms
  by (simp_all add: sectionChoiceRand_def questionChoiceRand_def sectionSkinRand_def
                    questionSkinRand_def)

lemma createRandomizedQuestion_same_selection:
  assumes blind: "student_blind env" and seed: "makeSeed opts s1 = makeSeed opts s2"
    and one: "createRandomizedQuestion env opts ex q s1 sectionIndex partIndex sectionSkin w
                = Inr (aqs1, w')"
    and two: "createRandomizedQuestion env opts ex q s2 sectionIndex partIndex sectionSkin t
                = Inr (aqs2, t')"
  shows "map question_selection aqs1 = map question_selection aqs2"
proof -
  let ?skins = "\<lambda>s. bindE (chooseSkins env (question_skin q) ex s (questionSkinRand env opts ex s q))
                        (mapE (\<lambda>qSkin. thrown (createCompositeSkin env sectionSkin qSkin)))"
  let ?make = "\<lambda>s questionSkin.
                 bindM (createStudentUuid env opts s (exam_id ex @ ''-q-'' @ question_id q))
                   (\<lambda>uuid. unitM (new_AssignedQuestion uuid ex s q questionSkin
                                    sectionIndex partIndex []))"
  have same: "?skins s1 = ?skins s2"
    using chooseSkins_blind [OF blind] rands_same_seed(4) [OF seed] by metis
  from one obtain skins1 where
    a: "?skins s1 = Inr skins1" "mapM (?make s1) skins1 w = Inr (aqs1, w')"
    unfolding createRandomizedQuestion_def bindM_eq_Inr liftE_eq_Inr by blast
  from two obtain skins2 where
    b: "?skins s2 = Inr skins2" "mapM (?make s2) skins2 t = Inr (aqs2, t')"
    unfolding createRandomizedQuestion_def bindM_eq_Inr liftE_eq_Inr by blast
  from a(1) b(1) same have eq: "skins2 = skins1" by simp
  have "list_all2 (\<lambda>y z. question_selection y = question_selection z) aqs1 aqs2 \<and> True"
  proof (rule mapM_related [OF a(2) b(2) [unfolded eq], where S = "\<lambda>_ _. True"])
    fix x sa ta y sb z tb
    assume "?make s1 x sa = Inr (y, sb)" "?make s2 x ta = Inr (z, tb)"
    then show "question_selection y = question_selection z \<and> True"
      by (auto simp: bindM_eq_Inr unitM_eq_Inr question_selection_def new_AssignedQuestion_def)
  qed simp
  then show ?thesis by (simp add: list_all2_conv_all_nth list_eq_iff_nth_eq)
qed

lemma createRandomizedSection_same_selection:
  fixes env :: "('sc, 'qc, 'c, 'k, 'r, 'w) Collaborators"
  assumes blind: "student_blind env" and seed: "makeSeed opts s1 = makeSeed opts s2"
    and one: "createRandomizedSection env opts ex sect s1 sectionIndex w = Inr (as1, w')"
    and two: "createRandomizedSection env opts ex sect s2 sectionIndex t = Inr (as2, t')"
  shows "map section_selection as1 = map section_selection as2"
proof -
  let ?skins = "\<lambda>s. chooseSkins env (section_skin sect) ex s (sectionSkinRand env opts ex s sect)"
  let ?body = "\<lambda>s sectionSkin.
      bindM (onSnd (createStudentUuid env opts s (exam_id ex @ ''-s-'' @ section_id sect)))
        (\<lambda>uuid.
           bindM (onFst (flatMapM (\<lambda>chooser r. thrown (chooseQuestions env chooser ex s r))
                           (section_questions sect)))
             (\<lambda>questions.
                bindM (onSnd (flatMapiM (\<lambda>q partIndex.
                                createRandomizedQuestion env opts ex q s
                                  sectionIndex partIndex sectionSkin)
                              questions))
                  (\<lambda>assignedQuestions.
                     unitM (new_AssignedSection uuid sect sectionIndex
                              sectionSkin assignedQuestions))))"
  have same: "?skins s1 = ?skins s2"
    using chooseSkins_blind [OF blind] rands_same_seed(3) [OF seed] by metis
  have choose_same: "(\<lambda>chooser r. thrown (chooseQuestions env chooser ex s1 r))
                   = (\<lambda>chooser r. thrown (chooseQuestions env chooser ex s2 r))"
    by (intro ext arg_cong [where f = thrown]) (rule student_blindD(2) [OF blind])
  from one obtain skins1 r1 where
    a: "?skins s1 = Inr skins1"
       "mapM (?body s1) skins1 (questionChoiceRand env opts ex s1 sect, w) = Inr (as1, (r1, w'))"
    unfolding createRandomizedSection_def bindM_eq_Inr liftE_eq_Inr withLocal_eq_Inr by blast
  from two obtain skins2 r2 where
    b: "?skins s2 = Inr skins2"
       "mapM (?body s2) skins2 (questionChoiceRand env opts ex s2 sect, t) = Inr (as2, (r2, t'))"
    unfolding createRandomizedSection_def bindM_eq_Inr liftE_eq_Inr withLocal_eq_Inr by blast
  from a(1) b(1) same have eq: "skins2 = skins1" by simp
  note b2 = b(2) [unfolded eq rands_same_seed(2) [OF seed, symmetric]]
  have "list_all2 (\<lambda>y z. section_selection y = section_selection z) as1 as2
          \<and> fst (r1, w') = fst (r2, t')"
  proof (rule mapM_related [OF a(2) b2, where S = "\<lambda>s t. fst s = fst t"])
    show "fst (questionChoiceRand env opts ex s1 sect, w)
            = fst (questionChoiceRand env opts ex s1 sect, t)" by simp
  next
    fix skin and sa ta :: "'r \<times> 'w" and y sb z tb
    assume S: "fst sa = fst ta"
      and f: "?body s1 skin sa = Inr (y, sb)" and g: "?body s2 skin ta = Inr (z, tb)"
    obtain r wa where sa: "sa = (r, wa)" by (cases sa)
    with S obtain wb where ta: "ta = (r, wb)" by (cases ta) auto
    from f [unfolded sa bindM_eq_Inr] obtain u1 x1 qs1 x2 aqs1 x3 where
      f1: "onFst (flatMapM (\<lambda>chooser r. thrown (chooseQuestions env chooser ex s1 r))
                    (section_questions sect)) x1 = Inr (qs1, x2)"
      and f0: "onSnd (createStudentUuid env opts s1 (exam_id ex @ ''-s-'' @ section_id sect)) (r, wa)
                 = Inr (u1, x1)"
      and f2: "onSnd (flatMapiM (\<lambda>q partIndex.
                  createRandomizedQuestion env opts ex q s1 sectionIndex partIndex skin) qs1) x2
                 = Inr (aqs1, x3)"
      and f3: "unitM (new_AssignedSection u1 sect sectionIndex skin aqs1) x3 = Inr (y, sb)"
      by blast
    from g [unfolded ta bindM_eq_Inr] obtain u2 y1 qs2 y2 aqs2 y3 where
      g1: "onFst (flatMapM (\<lambda>chooser r. thrown (chooseQuestions env chooser ex s2 r))
                    (section_questions sect)) y1 = Inr (qs2, y2)"
      and g0: "onSnd (createStudentUuid env opts s2 (exam_id ex @ ''-s-'' @ section_id sect)) (r, wb)
                 = Inr (u2, y1)"
      and g2: "onSnd (flatMapiM (\<lambda>q partIndex.
                  createRandomizedQuestion env opts ex q s2 sectionIndex partIndex skin) qs2) y2
                 = Inr (aqs2, y3)"
      and g3: "unitM (new_AssignedSection u2 sect sectionIndex skin aqs2) y3 = Inr (z, tb)"
      by blast
    obtain x1r x1w where x1: "x1 = (x1r, x1w)" by (cases x1)
    obtain y1r y1w where y1: "y1 = (y1r, y1w)" by (cases y1)
    obtain x2r x2w where x2: "x2 = (x2r, x2w)" by (cases x2)
    obtain y2r y2w where y2: "y2 = (y2r, y2w)" by (cases y2)
    obtain x3r x3w where x3: "x3 = (x3r, x3w)" by (cases x3)
    obtain y3r y3w where y3: "y3 = (y3r, y3w)" by (cases y3)
    from f0 g0 x1 y1 have r1: "x1r = r" "y1r = r" by (simp_all add: onSnd_eq_Inr)
    from f1 x1 x2 r1 have c1: "flatMapM (\<lambda>chooser r. thrown (chooseQuestions env chooser ex s1 r))
                    (section_questions sect) r = Inr (qs1, x2r)"
      by (simp add: onFst_eq_Inr)
    from g1 y1 y2 r1 have c2: "flatMapM (\<lambda>chooser r. thrown (chooseQuestions env chooser ex s2 r))
                    (section_questions sect) r = Inr (qs2, y2r)"
      by (simp add: onFst_eq_Inr)
    from c1 c2 choose_same have qs: "qs2 = qs1" "y2r = x2r" by simp_all
    from f2 x2 x3 have d1: "flatMapiM (\<lambda>q partIndex.
                  createRandomizedQuestion env opts ex q s1 sectionIndex partIndex skin) qs1 x2w
                 = Inr (aqs1, x3w)" and e1: "x3r = x2r"
      by (simp_all add: onSnd_eq_Inr)
    from g2 y2 y3 qs have d2: "flatMapiM (\<lambda>q partIndex.
                  createRandomizedQuestion env opts ex q s2 sectionIndex partIndex skin) qs1 y2w
                 = Inr (aqs2, y3w)" and e2: "y3r = x2r"
      by (simp_all add: onSnd_eq_Inr)
    have "map question_selection aqs1 = map question_selection aqs2 \<and> True"
    proof (rule flatMapiM_related [OF d1 d2, where S = "\<lambda>_ _. True"])
      fix q i and s t :: 'w and ya s' za t'
      assume "createRandomizedQuestion env opts ex q s1 sectionIndex i skin s = Inr (ya, s')"
        "createRandomizedQuestion env opts ex q s2 sectionIndex i skin t = Inr (za, t')"
      from createRandomizedQuestion_same_selection [OF blind seed this]
      show "map question_selection ya = map question_selection za \<and> True" by simp
    qed simp
    with f3 g3 x3 y3 e1 e2
    show "section_selection y = section_selection z \<and> fst sb = fst tb"
      by (auto simp: unitM_eq_Inr section_selection_def new_AssignedSection_def)
  qed
  then show ?thesis by (simp add: list_all2_conv_all_nth list_eq_iff_nth_eq)
qed

lemma buildAssignedExam_same_selection:
  fixes env :: "('sc, 'qc, 'c, 'k, 'r, 'w) Collaborators"
  assumes blind: "student_blind env" and seed: "makeSeed opts s1 = makeSeed opts s2"
    and one: "buildAssignedExam env opts ex s1 w = Inr (ae1, w')"
    and two: "buildAssignedExam env opts ex s2 t = Inr (ae2, t')"
  shows "selection ae1 = selection ae2"
proof -
  let ?sections = "\<lambda>s. withLocal (sectionChoiceRand env opts ex s)
                          (onFst (flatMapM (\<lambda>chooser r. thrown (chooseSections env chooser ex s r))
                                    (exam_sections ex)))"
  have choose_same: "(\<lambda>chooser r. thrown (chooseSections env chooser ex s1 r))
                   = (\<lambda>chooser r. thrown (chooseSections env chooser ex s2 r))"
    by (intro ext arg_cong [where f = thrown]) (rule student_blindD(1) [OF blind])
  from one obtain u1 wa secs1 wb ass1 wc where
    a: "(?sections s1 :: (_, 'w) action) wa = Inr (secs1, wb)"
       "flatMapiM (\<lambda>s sectionIndex. createRandomizedSection env opts ex s s1 sectionIndex) secs1 wb
          = Inr (ass1, wc)"
       "unitM (new_AssignedExam u1 ex s1 ass1 (allow_duplicates opts)) wc = Inr (ae1, w')"
    unfolding buildAssignedExam_def bindM_eq_Inr by blast
  from two obtain u2 ta secs2 tb ass2 tc where
    b: "(?sections s2 :: (_, 'w) action) ta = Inr (secs2, tb)"
       "flatMapiM (\<lambda>s sectionIndex. createRandomizedSection env opts ex s s2 sectionIndex) secs2 tb
          = Inr (ass2, tc)"
       "unitM (new_AssignedExam u2 ex s2 ass2 (allow_duplicates opts)) tc = Inr (ae2, t')"
    unfolding buildAssignedExam_def bindM_eq_Inr by blast
  from a(1) obtain ra where
    c1: "flatMapM (\<lambda>chooser r. thrown (chooseSections env chooser ex s1 r)) (exam_sections ex)
           (sectionChoiceRand env opts ex s1) = Inr (secs1, ra)"
    by (auto simp: withLocal_eq_Inr onFst_eq_Inr)
  from b(1) obtain rb where
    "flatMapM (\<lambda>chooser r. thrown (chooseSections env chooser ex s2 r)) (exam_sections ex)
           (sectionChoiceRand env opts ex s2) = Inr (secs2, rb)"
    by (auto simp: withLocal_eq_Inr onFst_eq_Inr)
  then have c2: "flatMapM (\<lambda>chooser r. thrown (chooseSections env chooser ex s1 r)) (exam_sections ex)
           (sectionChoiceRand env opts ex s1) = Inr (secs2, rb)"
    unfolding choose_same rands_same_seed(1) [OF seed] .
  from c1 c2 have "secs2 = secs1" by simp
  note b2 = b(2) [unfolded this]
  have "map section_selection ass1 = map section_selection ass2 \<and> True"
  proof (rule flatMapiM_related [OF a(2) b2, where S = "\<lambda>_ _. True"])
    fix sect i and s t :: 'w and ya s' za t'
    assume "createRandomizedSection env opts ex sect s1 i s = Inr (ya, s')"
      "createRandomizedSection env opts ex sect s2 i t = Inr (za, t')"
    from createRandomizedSection_same_selection [OF blind seed this]
    show "map section_selection ya = map section_selection za \<and> True" by simp
  qed simp
  with a(3) b(3) show ?thesis
    by (auto simp: unitM_eq_Inr selection_def new_AssignedExam_def)
qed

text \<open>
  C4, as the code has it. When \<open>consistent_randomization\<close> is set, \<open>makeSeed\<close> returns
  \<^verbatim>\<open>"common"\<close> for every student, and each of the four randomizers of a build, for the
  choice of sections, the choice of questions, the skins of a section and the skins of a
  question, is the same for any two students. With choosers that depend on the student
  only through the randomizer, two students whose builds return are assigned the same
  sections, the same questions and the same skins, at the same positions.
\<close>

theorem consistent_randomization_same_randomizers:
  "truthy_bool (consistent_randomization opts) \<Longrightarrow>
     makeSeed opts s1 = ''common'' \<and>
     sectionChoiceRand env opts ex s1 = sectionChoiceRand env opts ex s2 \<and>
     questionChoiceRand env opts ex s1 sect = questionChoiceRand env opts ex s2 sect \<and>
     sectionSkinRand env opts ex s1 sect = sectionSkinRand env opts ex s2 sect \<and>
     questionSkinRand env opts ex s1 q = questionSkinRand env opts ex s2 q \<and>
     (student_blind env \<and> buildAssignedExam env opts ex s1 w1 = Inr (ae1, w1') \<and>
        buildAssignedExam env opts ex s2 w2 = Inr (ae2, w2')
      \<longrightarrow> selection ae1 = selection ae2)"
proof -
  assume c: "truthy_bool (consistent_randomization opts)"
  then have seed: "makeSeed opts s = ''common''" for s
    by (simp add: makeSeed_def)
  then have same: "makeSeed opts s1 = makeSeed opts s2" by simp
  have sel: "student_blind env \<and> buildAssignedExam env opts ex s1 w1 = Inr (ae1, w1') \<and>
        buildAssignedExam env opts ex s2 w2 = Inr (ae2, w2')
      \<longrightarrow> selection ae1 = selection ae2"
  proof (intro impI, elim conjE)
    assume "student_blind env" "buildAssignedExam env opts ex s1 w1 = Inr (ae1, w1')"
      "buildAssignedExam env opts ex s2 w2 = Inr (ae2, w2')"
    then show "selection ae1 = selection ae2"
      by (rule buildAssignedExam_same_selection [OF _ same])
  qed
  show ?thesis
    by (intro conjI seed rands_same_seed [OF same] sel)
qed

theorem consistent_randomization_same_randomizers_witness:
  "makeSeed consistent_options demo_al = ''common'' \<and>
   sectionSkinRand demo_env consistent_options demo_exam_skins demo_al demo_sectionB
     = sectionSkinRand demo_env consistent_options demo_exam_skins demo_bob demo_sectionB \<and>
   (\<exists>ae1 w1' ae2 w2'.
      buildAssignedExam demo_env consistent_options demo_exam_skins demo_al 0 = Inr (ae1, w1') \<and>
      buildAssignedExam demo_env consistent_options demo_exam_skins demo_bob 0 = Inr (ae2, w2') \<and>
      selection ae1 = selection ae2)"
proof -
  have c: "truthy_bool (consistent_randomization consistent_options)"
    by code_simp
  have blind: "student_blind demo_env"
    by (simp add: student_blind_def demo_env_def)
  have "case buildAssignedExam demo_env consistent_options demo_exam_skins demo_al 0 of
          Inr _ \<Rightarrow> True | Inl _ \<Rightarrow> False"
    by code_simp
  then obtain ae1 w1' where
    one: "buildAssignedExam demo_env consistent_options demo_exam_skins demo_al 0 = Inr (ae1, w1')"
    by (cases "buildAssignedExam demo_env consistent_options demo_exam_skins demo_al 0") auto
  have "case buildAssignedExam demo_env consistent_options demo_exam_skins demo_bob 0 of
          Inr _ \<Rightarrow> True | Inl _ \<Rightarrow> False"
    by code_simp
  then obtain ae2 w2' where
    two: "buildAssignedExam demo_env consistent_options demo_exam_skins demo_bob 0 = Inr (ae2, w2')"
    by (cases "buildAssignedExam demo_env consistent_options demo_exam_skins demo_bob 0") auto
  note t = consistent_randomization_same_randomizers
      [OF c, where env = demo_env and ex = demo_exam_skins and ?s1.0 = demo_al and ?s2.0 = demo_bob
         and sect = demo_sectionB and q = demo_q3 and ?w1.0 = 0 and ?w2.0 = 0
         and ?ae1.0 = ae1 and ?ae2.0 = ae2 and w1' = w1' and w2' = w2']
  from t have seed: "makeSeed consistent_options demo_al = ''common''" by (rule conjunct1)
  from t have rand: "sectionSkinRand demo_env consistent_options demo_exam_skins demo_al demo_sectionB
     = sectionSkinRand demo_env consistent_options demo_exam_skins demo_bob demo_sectionB"
    by (elim conjE)
  from t have "student_blind demo_env \<and>
        buildAssignedExam demo_env consistent_options demo_exam_skins demo_al 0 = Inr (ae1, w1') \<and>
        buildAssignedExam demo_env consistent_options demo_exam_skins demo_bob 0 = Inr (ae2, w2')
      \<longrightarrow> selection ae1 = selection ae2"
    by (elim conjE)
  with blind one two have sel: "selection ae1 = selection ae2" by (simp only: simp_thms)
  have "\<exists>ae1 w1' ae2 w2'.
      buildAssignedExam demo_env consistent_options demo_exam_skins demo_al 0 = Inr (ae1, w1') \<and>
      buildAssignedExam demo_env consistent_options demo_exam_skins demo_bob 0 = Inr (ae2, w2') \<and>
      selection ae1 = selection ae2"
    by (rule exI [of _ ae1], rule exI [of _ w1'], rule exI [of _ ae2], rule exI [of _ w2'])
       (intro conjI one two sel)
  with seed rand show ?thesis by (intro conjI)
qed

text \<open>
  The skins do not stay student-specific under \<open>consistent_randomization\<close>: in an exam
  whose section and questions choose their skins at random, two students who get
  different skins by default get the same skins once the option is set, because the skin
  randomizers are made from \<open>makeSeed\<close> as well.
\<close>

theorem skins_vary_under_consistent_randomization_counterexample:
  "skins_built (buildAssignedExam demo_env default_options demo_exam_skins demo_al 0)
     = Inr [(''green'', [''green+default'', ''green+red''])]
   \<and> skins_built (buildAssignedExam demo_env default_options demo_exam_skins demo_bob 0)
     = Inr [(''yellow'', [''yellow+default'', ''yellow+blue''])]
   \<and> skins_built (buildAssignedExam demo_env consistent_options demo_exam_skins demo_al 0)
     = Inr [(''green'', [''green+default'', ''green+red''])]
   \<and> skins_built (buildAssignedExam demo_env consistent_options demo_exam_skins demo_bob 0)
     = Inr [(''green'', [''green+default'', ''green+red''])]
   \<and> questionSkinRand demo_env consistent_options demo_exam_skins demo_al demo_q3
     = questionSkinRand demo_env consistent_options demo_exam_skins demo_bob demo_q3
   \<and> sectionSkinRand demo_env consistent_options demo_exam_skins demo_al demo_sectionB
     = sectionSkinRand demo_env consistent_options demo_exam_skins demo_bob demo_sectionB"
  by code_simp

section \<open>UUIDs under the uuidv5 strategy\<close>

text \<open>
  Under the strategy \<^verbatim>\<open>"uuidv5"\<close> the uuid is what the uuid package's \<^verbatim>\<open>v5\<close> makes of
  \<^verbatim>\<open>uniqname + "-" + id\<close> and the namespace: the call neither reads nor changes the
  entropy. Which uuid that is, and whether two names get different ones, is decided by
  that package.
\<close>

lemma uuidv5_uuid_ignores_entropy:
  "uuid_strategy opts = uuidv5 \<Longrightarrow>
     createStudentUuid env opts student ident w
       = (if truthy_string (uuidv5_namespace opts)
          then (case uuid_v5 env (uniqname student @ ''-'' @ ident)
                      (or_default (uuidv5_namespace opts) []) of
                  Inl message \<Rightarrow> Inl (Thrown message)
                | Inr uuid \<Rightarrow> Inr (uuid, w))
          else Inl Uuidv5NamespaceAsserted)"
  by (cases "uuid_v5 env (uniqname student @ ''-'' @ ident) (or_default (uuidv5_namespace opts) [])")
     (simp_all add: createStudentUuid_def bindM_def liftE_def assert_def)

section \<open>Regular expressions in specification files\<close>

lemma replacer_RegExp:
  "replacer key (JSRegExp source flags) =
     JSObject [(''examma_ray_serialized_regex'',
                JSObject [(''source'', JSString source), (''flags'', JSString flags)])]"
  by (simp add: replacer_def)










text \<open>
  Why a storable value has no \<^verbatim>\<open>null\<close>: \<^verbatim>\<open>typeof null\<close> is \<^verbatim>\<open>"object"\<close>, so the
  reviver reads a property of \<^verbatim>\<open>null\<close> and the load ends with a TypeError.
\<close>

lemma null_is_not_revived: "internalizeJSONProperty js key JNull = Inl TypeError"
  by (simp add: reviver_def)






end
